theory Spec2Isabelle
  imports Complex_Main
begin

section \<open>JavaScript numbers\<close>

text \<open>
  A JavaScript number is modelled as an exact real extended with the three non-finite
  values of the language. The operations of this section compute exactly; what they keep
  is where an operation leaves the finite numbers: the square root of a negative number
  is \<open>NaN\<close>, a division by zero is an infinity or \<open>NaN\<close>, and \<open>NaN\<close> propagates through
  arithmetic and makes every comparison false. The rounding of the 64-bit format is
  modelled in a section of its own, for the haversine distance, where it decides the
  result.
\<close>

datatype number = Fin real | PosInf | NegInf | NaN

fun js_add :: "number \<Rightarrow> number \<Rightarrow> number" where
  "js_add (Fin x) (Fin y) = Fin (x + y)"
| "js_add NaN _ = NaN"
| "js_add _ NaN = NaN"
| "js_add PosInf NegInf = NaN"
| "js_add NegInf PosInf = NaN"
| "js_add PosInf _ = PosInf"
| "js_add _ PosInf = PosInf"
| "js_add NegInf _ = NegInf"
| "js_add _ NegInf = NegInf"

text \<open>The sign of a number that is not \<open>NaN\<close>: \<open>-1\<close>, \<open>0\<close> or \<open>1\<close>.\<close>

fun js_sign :: "number \<Rightarrow> int" where
  "js_sign (Fin x) = (if x < 0 then - 1 else if x = 0 then 0 else 1)"
| "js_sign PosInf = 1"
| "js_sign NegInf = - 1"
| "js_sign NaN = 0"

definition js_inf :: "int \<Rightarrow> number" where
  "js_inf sg = (if sg < 0 then NegInf else if sg = 0 then NaN else PosInf)"

fun js_mul :: "number \<Rightarrow> number \<Rightarrow> number" where
  "js_mul (Fin x) (Fin y) = Fin (x * y)"
| "js_mul NaN _ = NaN"
| "js_mul _ NaN = NaN"
| "js_mul x y = js_inf (js_sign x * js_sign y)"

fun js_div :: "number \<Rightarrow> number \<Rightarrow> number" where
  "js_div (Fin x) (Fin y) = (if y = 0 then js_inf (js_sign (Fin x)) else Fin (x / y))"
| "js_div NaN _ = NaN"
| "js_div _ NaN = NaN"
| "js_div (Fin x) _ = Fin 0"
| "js_div x (Fin y) = js_inf (js_sign x * (if y < 0 then - 1 else 1))"
| "js_div _ _ = NaN"

fun js_lt :: "number \<Rightarrow> number \<Rightarrow> bool" where
  "js_lt (Fin x) (Fin y) = (x < y)"
| "js_lt NaN _ = False"
| "js_lt _ NaN = False"
| "js_lt NegInf y = (y \<noteq> NegInf)"
| "js_lt x PosInf = (x \<noteq> PosInf)"
| "js_lt _ _ = False"

definition Math_max :: "number \<Rightarrow> number \<Rightarrow> number" where
  "Math_max x y = (if x = NaN \<or> y = NaN then NaN else if js_lt x y then y else x)"

definition Math_min :: "number \<Rightarrow> number \<Rightarrow> number" where
  "Math_min x y = (if x = NaN \<or> y = NaN then NaN else if js_lt y x then y else x)"

fun Math_sqrt :: "number \<Rightarrow> number" where
  "Math_sqrt (Fin x) = (if x < 0 then NaN else Fin (sqrt x))"
| "Math_sqrt PosInf = PosInf"
| "Math_sqrt _ = NaN"

text \<open>
  \<open>Math.atan2(y, x)\<close> on finite arguments: the angle of the point \<open>(x, y)\<close>, in
  \<open>(-\<pi>, \<pi>]\<close>.
\<close>

definition atan2_real :: "real \<Rightarrow> real \<Rightarrow> real" where
  "atan2_real y x =
     (if 0 < x then arctan (y / x)
      else if x < 0 then (if 0 \<le> y then arctan (y / x) + pi else arctan (y / x) - pi)
      else if 0 < y then pi / 2
      else if y < 0 then - (pi / 2)
      else 0)"

fun Math_atan2 :: "number \<Rightarrow> number \<Rightarrow> number" where
  "Math_atan2 (Fin y) (Fin x) = Fin (atan2_real y x)"
| "Math_atan2 NaN _ = NaN"
| "Math_atan2 _ NaN = NaN"
| "Math_atan2 (Fin y) PosInf = Fin 0"
| "Math_atan2 (Fin y) NegInf = Fin (if y < 0 then - pi else pi)"
| "Math_atan2 PosInf (Fin x) = Fin (pi / 2)"
| "Math_atan2 NegInf (Fin x) = Fin (- (pi / 2))"
| "Math_atan2 PosInf PosInf = Fin (pi / 4)"
| "Math_atan2 PosInf NegInf = Fin (3 * pi / 4)"
| "Math_atan2 NegInf PosInf = Fin (- (pi / 4))"
| "Math_atan2 NegInf NegInf = Fin (- (3 * pi / 4))"

section \<open>Distances\<close>

text \<open>A coordinate is the pair \<open>[lat, lng]\<close> in decimal degrees.\<close>

type_synonym coord = "real \<times> real"

text \<open>
  \<open>App.#haversineDistance\<close>, in exact arithmetic. The constant \<open>a\<close> of the source is
  \<open>haversine_a\<close>; the returned expression
  \<open>R * 2 * Math.atan2(Math.sqrt(a), Math.sqrt(1 - a))\<close> is \<open>haversine_final\<close>.
\<close>

definition haversine_a :: "coord \<Rightarrow> coord \<Rightarrow> real" where
  "haversine_a coord1 coord2 =
     (let dLat = ((fst coord2 - fst coord1) * pi) / 180;
          dLon = ((snd coord2 - snd coord1) * pi) / 180
      in (sin (dLat / 2))\<^sup>2 +
         cos ((fst coord1 * pi) / 180) * cos ((fst coord2 * pi) / 180) * (sin (dLon / 2))\<^sup>2)"

definition haversine_final :: "real \<Rightarrow> number" where
  "haversine_final a =
     (let R = 6371
      in js_mul (js_mul (Fin R) (Fin 2))
           (Math_atan2 (Math_sqrt (Fin a)) (Math_sqrt (Fin (1 - a)))))"

definition haversineDistance :: "coord \<Rightarrow> coord \<Rightarrow> number" where
  "haversineDistance coord1 coord2 = haversine_final (haversine_a coord1 coord2)"

text \<open>
  \<open>App.#calculateTotalDistance\<close>: the loop \<open>for (let i = 1; i < points.length; i++)\<close>
  with its accumulator \<open>total\<close> (here \<open>tot\<close>).
\<close>

function calculateTotalDistance_loop :: "coord list \<Rightarrow> nat \<Rightarrow> number \<Rightarrow> number" where
  "calculateTotalDistance_loop points i tot =
     (if i < length points
      then calculateTotalDistance_loop points (i + 1)
             (js_add tot (haversineDistance (points ! (i - 1)) (points ! i)))
      else tot)"
  by pat_completeness auto
termination
  by (relation "measure (\<lambda>(points, i, tot). length points - i)") auto

declare calculateTotalDistance_loop.simps [simp del]

definition calculateTotalDistance :: "coord list \<Rightarrow> number" where
  "calculateTotalDistance points = calculateTotalDistance_loop points 1 (Fin 0)"

section \<open>Log entries\<close>

datatype error = TypeError | RangeError | SyntaxError

text \<open>
  Conversion of an integral number to a string, as \<open>Date.now() + ''\<close> does: the decimal
  digits, with a sign for a negative number (the form JavaScript uses below \<open>10\<^sup>2\<^sup>1\<close>).
\<close>

definition digit_char :: "nat \<Rightarrow> char" where
  "digit_char d = char_of (48 + d)"

function dec_digits :: "nat \<Rightarrow> string" where
  "dec_digits n = (if n < 10 then [digit_char n] else dec_digits (n div 10) @ [digit_char (n mod 10)])"
  by pat_completeness auto
termination
  by (relation "measure (\<lambda>n. n)") auto

declare dec_digits.simps [simp del]

definition Number_toString :: "int \<Rightarrow> string" where
  "Number_toString i = (if i < 0 then CHR ''-'' # dec_digits (nat (- i)) else dec_digits (nat i))"

text \<open>\<open>str.slice(-k)\<close>: the last \<open>k\<close> characters, the whole string when it is shorter.\<close>

definition slice_last :: "nat \<Rightarrow> string \<Rightarrow> string" where
  "slice_last k str = drop (length str - k) str"

text \<open>
  The base class \<open>Log\<close>. A \<open>Date\<close> is its time value in milliseconds, \<open>None\<close> for the
  invalid date. The clock is an input of the constructor: \<open>new_Date\<close> is the time value
  \<open>new Date()\<close> gets and \<open>Date_now\<close> the value of \<open>Date.now()\<close>.
\<close>

record 'c log =
  date :: "int option"
  log_id :: string
  coords :: 'c

definition Log_id :: "int \<Rightarrow> string" where
  "Log_id Date_now = slice_last 10 (Number_toString Date_now)"

text \<open>
  \<open>Route\<close>; the field \<open>#notes\<close> is \<open>route_notes\<close>. \<open>#calcPace\<close> reads the fields
  \<open>#distance\<close> and \<open>#duration\<close>.
\<close>

record route = "coord list log" +
  title :: string
  distance :: number
  duration :: number
  pace :: number
  route_notes :: string

definition calcPace :: "number \<Rightarrow> number \<Rightarrow> number" where
  "calcPace distance_km duration_min =
     (if distance_km = Fin 0 \<or> duration_min = Fin 0 then Fin 0
      else js_div duration_min distance_km)"

text \<open>
  The constructors. An argument with a default value is an option, \<open>None\<close> for
  \<open>undefined\<close>, which selects the default.
\<close>

definition Route_constructor ::
  "int \<Rightarrow> int \<Rightarrow> coord list \<Rightarrow> number \<Rightarrow> string option \<Rightarrow> number option \<Rightarrow> string option \<Rightarrow> route" where
  "Route_constructor new_Date Date_now coordsArray distance_arg title_arg duration_arg notes_arg =
     (let title_v = (case title_arg of None \<Rightarrow> ''Untitled Route'' | Some t \<Rightarrow> t);
          duration_v = (case duration_arg of None \<Rightarrow> Fin 0 | Some d \<Rightarrow> d);
          notes_v = (case notes_arg of None \<Rightarrow> [] | Some n \<Rightarrow> n)
      in \<lparr> date = Some new_Date, log_id = Log_id Date_now, coords = coordsArray,
           title = title_v, distance = distance_arg, duration = duration_v,
           pace = calcPace distance_arg duration_v, route_notes = notes_v \<rparr>)"

record spot = "coord log" +
  spot_title :: string
  description :: string

definition Spot_constructor ::
  "int \<Rightarrow> int \<Rightarrow> coord \<Rightarrow> string option \<Rightarrow> string option \<Rightarrow> spot" where
  "Spot_constructor new_Date Date_now coords_arg title_arg description_arg =
     \<lparr> date = Some new_Date, log_id = Log_id Date_now, coords = coords_arg,
       spot_title = (case title_arg of None \<Rightarrow> ''Untitled Spot'' | Some t \<Rightarrow> t),
       description = (case description_arg of None \<Rightarrow> [] | Some d \<Rightarrow> d) \<rparr>"

subsection \<open>Serialization\<close>

text \<open>
  The plain objects \<open>toJSON\<close> builds and \<open>fromJSON\<close> reads. \<open>Date.prototype.toISOString\<close>
  and the parsing constructor \<open>new Date(string)\<close> belong to the host; they are the
  parameters \<open>toISOString\<close> (on a valid time value) and \<open>Date_parse\<close> (\<open>None\<close> when the
  string is no date). \<open>toISOString\<close> raises \<open>RangeError\<close> on the invalid date.
\<close>

record route_json =
  j_id :: string
  j_date :: string
  j_coords :: "coord list"
  j_type :: string
  j_title :: "string option"
  j_distance :: number
  j_duration :: "number option"
  j_notes :: "string option"

record spot_json =
  sj_id :: string
  sj_date :: string
  sj_coords :: coord
  sj_type :: string
  sj_title :: "string option"
  sj_description :: "string option"

definition Route_toJSON :: "(int \<Rightarrow> string) \<Rightarrow> route \<Rightarrow> error + route_json" where
  "Route_toJSON toISOString r =
     (case date r of
        None \<Rightarrow> Inl RangeError
      | Some t \<Rightarrow>
          Inr \<lparr> j_id = log_id r, j_date = toISOString t, j_coords = coords r,
                j_type = ''route'', j_title = Some (title r), j_distance = distance r,
                j_duration = Some (duration r), j_notes = Some (route_notes r) \<rparr>)"

definition Route_restoreFromJSON :: "(string \<Rightarrow> int option) \<Rightarrow> route_json \<Rightarrow> route \<Rightarrow> route" where
  "Route_restoreFromJSON Date_parse data r =
     r\<lparr> log_id := j_id data, date := Date_parse (j_date data), coords := j_coords data \<rparr>"

definition Route_fromJSON ::
  "(string \<Rightarrow> int option) \<Rightarrow> int \<Rightarrow> int \<Rightarrow> route_json \<Rightarrow> route" where
  "Route_fromJSON Date_parse new_Date Date_now data =
     Route_restoreFromJSON Date_parse data
       (Route_constructor new_Date Date_now (j_coords data) (j_distance data)
          (j_title data) (j_duration data) (j_notes data))"

definition Spot_toJSON :: "(int \<Rightarrow> string) \<Rightarrow> spot \<Rightarrow> error + spot_json" where
  "Spot_toJSON toISOString sp =
     (case date sp of
        None \<Rightarrow> Inl RangeError
      | Some t \<Rightarrow>
          Inr \<lparr> sj_id = log_id sp, sj_date = toISOString t, sj_coords = coords sp,
                sj_type = ''spot'', sj_title = Some (spot_title sp),
                sj_description = Some (description sp) \<rparr>)"

definition Spot_restoreFromJSON :: "(string \<Rightarrow> int option) \<Rightarrow> spot_json \<Rightarrow> spot \<Rightarrow> spot" where
  "Spot_restoreFromJSON Date_parse data sp =
     sp\<lparr> log_id := sj_id data, date := Date_parse (sj_date data), coords := sj_coords data \<rparr>"

definition Spot_fromJSON ::
  "(string \<Rightarrow> int option) \<Rightarrow> int \<Rightarrow> int \<Rightarrow> spot_json \<Rightarrow> spot" where
  "Spot_fromJSON Date_parse new_Date Date_now data =
     Spot_restoreFromJSON Date_parse data
       (Spot_constructor new_Date Date_now (sj_coords data) (sj_title data) (sj_description data))"

section \<open>The application state\<close>

datatype Mode = ModeNone | ModeRoute | ModeSpot

datatype entry = RouteLog route | SpotLog spot

datatype entry_json = RouteJSON route_json | SpotJSON spot_json

fun entry_id :: "entry \<Rightarrow> string" where
  "entry_id (RouteLog r) = log_id r"
| "entry_id (SpotLog sp) = log_id sp"

fun entry_title :: "entry \<Rightarrow> string" where
  "entry_title (RouteLog r) = title r"
| "entry_title (SpotLog sp) = spot_title sp"

text \<open>
  A layer of the map widget: a polyline with its points and the style options the
  application sets, or a marker, which has no \<open>setStyle\<close>.
\<close>

record style =
  color :: string
  weight :: nat
  opacity :: real

datatype layer = Polyline "coord list" style | Marker coord

text \<open>
  The callback \<open>animate\<close> that \<open>#animateRoute\<close> hands to \<open>requestAnimationFrame\<close>, with
  the variables it closes over.
\<close>

datatype Phase = Progress | Stripes

record animation =
  anim_logId :: string
  anim_coords :: "coord list"
  animationDuration :: number
  startTime :: "number option"
  phase :: Phase

text \<open>
  The private fields of \<open>App\<close> that the modelled methods read or write, followed by the
  parts of the host they act on: the route panel, the distance display and tooltip, the
  entry form, the delete dialog, the rendered cards (by \<open>data-id\<close>), the stored array
  (before \<open>JSON.stringify\<close>) and the pending animation frames. The distance display and
  the distance field of the form hold the number their text shows.
\<close>

record app =
  mode :: Mode
  isDrawing :: bool
  routePoints :: "coord list"
  currentPolyline :: "coord list option"
  vertexMarkers :: "coord list"
  currentDistance :: number
  logs :: "entry list"
  drawnLayers :: "string \<rightharpoonup> layer"
  activeAnimations :: "string \<rightharpoonup> nat"
  animationLayers :: "string \<rightharpoonup> layer"
  selectedRouteId :: "string option"
  pendingDeleteId :: "string option"
  routePanelVisible :: bool
  distanceDisplay :: number
  distanceTooltipVisible :: bool
  formOpen :: bool
  distanceFieldShown :: bool
  distanceInput :: number
  deleteDialogOpen :: bool
  deleteMessage :: string
  cards :: "string list"
  storedLogs :: "entry_json list option"
  nextFrameId :: nat
  scheduledFrames :: "nat \<rightharpoonup> animation"

text \<open>The state the field initialisers of \<open>App\<close> give, before anything is loaded.\<close>

definition initial_app :: app where
  "initial_app =
     \<lparr> mode = ModeNone, isDrawing = False, routePoints = [], currentPolyline = None,
       vertexMarkers = [], currentDistance = Fin 0, logs = [], drawnLayers = Map.empty,
       activeAnimations = Map.empty, animationLayers = Map.empty, selectedRouteId = None,
       pendingDeleteId = None, routePanelVisible = False, distanceDisplay = Fin 0,
       distanceTooltipVisible = False, formOpen = False, distanceFieldShown = False,
       distanceInput = Fin 0, deleteDialogOpen = False, deleteMessage = [], cards = [],
       storedLogs = None, nextFrameId = 1, scheduledFrames = Map.empty \<rparr>"

text \<open>A string or \<open>null\<close> used as a condition: \<open>null\<close> and the empty string are falsy.\<close>

definition truthy :: "string option \<Rightarrow> bool" where
  "truthy v = (case v of None \<Rightarrow> False | Some str \<Rightarrow> str \<noteq> [])"

section \<open>The drawing session\<close>

definition updateModeUI :: "app \<Rightarrow> app" where
  "updateModeUI s = s\<lparr> routePanelVisible := (mode s = ModeRoute \<and> 0 < length (routePoints s)) \<rparr>"

text \<open>
  \<open>x.toFixed(2)\<close>. A text that shows a number is modelled by the number it shows, so the
  result is \<open>x\<close> rounded to two decimals: the sign is set aside, \<open>n\<close> is the integer with
  \<open>n / 100\<close> nearest to \<open>x\<close>, the larger one of two, and from \<open>10\<^sup>2\<^sup>1\<close> on, as for the values
  that are not finite, the text is that of \<open>x\<close> itself.
\<close>

definition toFixed2 :: "number \<Rightarrow> number" where
  "toFixed2 x =
     (case x of
        Fin r \<Rightarrow>
          if 10 ^ 21 \<le> \<bar>r\<bar> then Fin r
          else if r < 0 then Fin (- (of_int \<lfloor>- r * 100 + 1 / 2\<rfloor> / 100))
          else Fin (of_int \<lfloor>r * 100 + 1 / 2\<rfloor> / 100)
      | _ \<Rightarrow> x)"

definition updateDistanceDisplay :: "app \<Rightarrow> app" where
  "updateDistanceDisplay s = s\<lparr> distanceDisplay := toFixed2 (currentDistance s) \<rparr>"

definition clearDrawingState :: "app \<Rightarrow> app" where
  "clearDrawingState s =
     updateDistanceDisplay
       (s\<lparr> currentPolyline := None, vertexMarkers := [], routePoints := [],
           currentDistance := Fin 0, distanceTooltipVisible := False \<rparr>)"

definition setMode :: "Mode \<Rightarrow> app \<Rightarrow> app" where
  "setMode m s =
     updateModeUI
       (if mode s = m
        then clearDrawingState (s\<lparr> mode := ModeNone, isDrawing := False \<rparr>)
        else s\<lparr> mode := m, isDrawing := True \<rparr>)"

definition openForm :: "bool \<Rightarrow> app \<Rightarrow> app" where
  "openForm isRoute s =
     (let s1 = s\<lparr> distanceFieldShown := isRoute \<rparr>;
          s2 = (if isRoute then s1\<lparr> distanceInput := toFixed2 (currentDistance s1) \<rparr> else s1)
      in s2\<lparr> formOpen := True \<rparr>)"

definition closeForm :: "app \<Rightarrow> app" where
  "closeForm s = clearDrawingState (s\<lparr> formOpen := False \<rparr>)"

definition finishRoute :: "app \<Rightarrow> app" where
  "finishRoute s =
     (if length (routePoints s) < 2 then s
      else openForm True (updateModeUI (s\<lparr> isDrawing := False, mode := ModeNone \<rparr>)))"

definition cancelDrawing :: "app \<Rightarrow> app" where
  "cancelDrawing s = updateModeUI ((clearDrawingState s)\<lparr> mode := ModeNone, isDrawing := False \<rparr>)"

definition addRoutePoint :: "coord \<Rightarrow> app \<Rightarrow> app" where
  "addRoutePoint point s =
     (let s1 = s\<lparr> routePoints := routePoints s @ [point] \<rparr>;
          s2 = s1\<lparr> vertexMarkers := vertexMarkers s1 @ [point] \<rparr>;
          s3 = (if 2 \<le> length (routePoints s2)
                then s2\<lparr> currentPolyline := Some (routePoints s2),
                         currentDistance := calculateTotalDistance (routePoints s2) \<rparr>
                else s2)
      in updateModeUI (updateDistanceDisplay s3))"

definition addSpot :: "coord \<Rightarrow> app \<Rightarrow> app" where
  "addSpot point s =
     openForm False
       ((updateModeUI (s\<lparr> mode := ModeNone, isDrawing := False \<rparr>))\<lparr> routePoints := [point] \<rparr>)"

text \<open>
  \<open>#closeLoop\<close> raises \<open>TypeError\<close> when there is no first point to copy, and, after the
  push, when \<open>#currentPolyline\<close> is \<open>null\<close>. An error carries the state at the throw.
\<close>

definition closeLoop :: "app \<Rightarrow> (error \<times> app) + app" where
  "closeLoop s =
     (case routePoints s of
        [] \<Rightarrow> Inl (TypeError, s)
      | startPoint # _ \<Rightarrow>
          (let s1 = s\<lparr> routePoints := routePoints s @ [startPoint] \<rparr>
           in case currentPolyline s1 of
                None \<Rightarrow> Inl (TypeError, s1)
              | Some _ \<Rightarrow>
                  Inr (finishRoute (updateDistanceDisplay
                         (s1\<lparr> currentPolyline := Some (routePoints s1),
                              currentDistance := calculateTotalDistance (routePoints s1) \<rparr>)))))"

definition handleMapClick :: "coord \<Rightarrow> app \<Rightarrow> (error \<times> app) + app" where
  "handleMapClick point s =
     (if \<not> isDrawing s then Inr s
      else if mode s = ModeRoute then
        (if 2 \<le> length (routePoints s) \<and>
            js_lt (haversineDistance point (routePoints s ! 0)) (Fin 0.05)
         then closeLoop s
         else Inr (addRoutePoint point s))
      else if mode s = ModeSpot then Inr (addSpot point s)
      else Inr s)"

definition handleDoubleClick :: "app \<Rightarrow> app" where
  "handleDoubleClick s =
     (if mode s = ModeRoute \<and> 2 \<le> length (routePoints s) then finishRoute s else s)"

datatype key = Enter | Escape | OtherKey

definition handleKeydown :: "key \<Rightarrow> app \<Rightarrow> app" where
  "handleKeydown k s =
     (let s1 = (if k = Enter \<and> mode s = ModeRoute \<and> 2 \<le> length (routePoints s)
                then finishRoute s else s)
      in if k = Escape
         then (if formOpen s1 then closeForm s1
               else if isDrawing s1 then cancelDrawing s1 else s1)
         else s1)"

section \<open>Selection, hover and animation\<close>

definition defaultStyle :: style where
  "defaultStyle = \<lparr> color = ''#9ca3af'', weight = 3, opacity = 0.6 \<rparr>"

text \<open>\<open>layer.setStyle(...)\<close> guarded by \<open>layer && layer.setStyle\<close>: only a polyline has it.\<close>

definition resetLayerStyle :: "string \<Rightarrow> app \<Rightarrow> app" where
  "resetLayerStyle logId s =
     (case drawnLayers s logId of
        Some (Polyline pts st) \<Rightarrow> s\<lparr> drawnLayers := (drawnLayers s)(logId \<mapsto> Polyline pts defaultStyle) \<rparr>
      | _ \<Rightarrow> s)"

text \<open>
  \<open>#renderLogOnMap\<close> draws a polyline in the default style for a route and a marker for a
  spot and records the layer under the entry's id; \<open>#renderLogCard\<close> inserts the card
  before the empty-state element, that is after the cards already there. \<open>#loadMap\<close> runs
  both for every entry.
\<close>

definition renderLogOnMap :: "entry \<Rightarrow> app \<Rightarrow> app" where
  "renderLogOnMap l s =
     (case l of
        RouteLog r \<Rightarrow> s\<lparr> drawnLayers := (drawnLayers s)(log_id r \<mapsto> Polyline (coords r) defaultStyle) \<rparr>
      | SpotLog sp \<Rightarrow> s\<lparr> drawnLayers := (drawnLayers s)(log_id sp \<mapsto> Marker (coords sp)) \<rparr>)"

definition renderLogCard :: "entry \<Rightarrow> app \<Rightarrow> app" where
  "renderLogCard l s = s\<lparr> cards := cards s @ [entry_id l] \<rparr>"

definition loadMap_render :: "app \<Rightarrow> app" where
  "loadMap_render s = foldl (\<lambda>s1 l. renderLogCard l (renderLogOnMap l s1)) s (logs s)"

definition stopRouteAnimation :: "string \<Rightarrow> app \<Rightarrow> app" where
  "stopRouteAnimation logId s =
     (let s1 = (case activeAnimations s logId of
                  None \<Rightarrow> s
                | Some frameId \<Rightarrow>
                    if frameId \<noteq> 0
                    then s\<lparr> scheduledFrames := (scheduledFrames s)(frameId := None),
                            activeAnimations := (activeAnimations s)(logId := None) \<rparr>
                    else s)
      in case animationLayers s1 logId of
           None \<Rightarrow> s1
         | Some animLayer \<Rightarrow> s1\<lparr> animationLayers := (animationLayers s1)(logId := None) \<rparr>)"

text \<open>
  \<open>#animateRoute\<close>. The unguarded \<open>baseLayer.setStyle(...)\<close> raises \<open>TypeError\<close> on a
  marker. \<open>requestAnimationFrame\<close> hands out the next frame id and records the callback.
\<close>

definition animateRoute :: "string \<Rightarrow> coord list \<Rightarrow> app \<Rightarrow> (error \<times> app) + app" where
  "animateRoute logId coords_arg s =
     (let s1 = stopRouteAnimation logId s
      in case drawnLayers s1 logId of
           None \<Rightarrow> Inr s1
         | Some (Marker c) \<Rightarrow> Inl (TypeError, s1)
         | Some (Polyline pts st) \<Rightarrow>
             (let s2 = s1\<lparr> drawnLayers := (drawnLayers s1)
                          (logId \<mapsto> Polyline pts \<lparr> color = ''#d1d5db'', weight = 4, opacity = 0.4 \<rparr>) \<rparr>;
                  animLayer = Polyline [] \<lparr> color = ''#000000'', weight = 4, opacity = 1 \<rparr>;
                  s3 = s2\<lparr> animationLayers := (animationLayers s2)(logId \<mapsto> animLayer) \<rparr>;
                  totalDistance = calculateTotalDistance coords_arg;
                  duration_ms = Math_min (Math_max (js_mul totalDistance (Fin 200)) (Fin 500)) (Fin 2000);
                  frameId = nextFrameId s3;
                  s4 = s3\<lparr> scheduledFrames := (scheduledFrames s3)
                          (frameId \<mapsto> \<lparr> anim_logId = logId, anim_coords = coords_arg,
                                        animationDuration = duration_ms, startTime = None,
                                        phase = Progress \<rparr>),
                          nextFrameId := frameId + 1 \<rparr>
              in Inr (s4\<lparr> activeAnimations := (activeAnimations s4)(logId \<mapsto> frameId) \<rparr>)))"

definition deselectRoute :: "app \<Rightarrow> app" where
  "deselectRoute s =
     (case selectedRouteId s of
        None \<Rightarrow> s
      | Some logId \<Rightarrow>
          if logId = [] then s
          else resetLayerStyle logId (stopRouteAnimation logId (s\<lparr> selectedRouteId := None \<rparr>)))"

text \<open>
  The list handlers take what \<open>e.target.closest(...)\<close> finds: for hover and leave the
  \<open>data-id\<close> of the enclosing card, \<open>None\<close> when there is no card.
\<close>

definition handleLogHover :: "string option \<Rightarrow> app \<Rightarrow> (error \<times> app) + app" where
  "handleLogHover card_id s =
     (case card_id of
        None \<Rightarrow> Inr s
      | Some logId \<Rightarrow>
          if selectedRouteId s = Some logId then Inr s
          else (case find (\<lambda>l. entry_id l = logId) (logs s) of
                  Some (RouteLog r) \<Rightarrow> animateRoute logId (coords r) s
                | _ \<Rightarrow> Inr s))"

definition handleLogLeave :: "string option \<Rightarrow> app \<Rightarrow> app" where
  "handleLogLeave card_id s =
     (case card_id of
        None \<Rightarrow> s
      | Some logId \<Rightarrow>
          if selectedRouteId s = Some logId then s
          else resetLayerStyle logId (stopRouteAnimation logId s))"

datatype click_target = DeleteButton string | Card string | Elsewhere

definition deleteLog :: "string \<Rightarrow> app \<Rightarrow> app" where
  "deleteLog logId s =
     (case find (\<lambda>l. entry_id l = logId) (logs s) of
        None \<Rightarrow> s
      | Some l \<Rightarrow>
          s\<lparr> pendingDeleteId := Some logId,
             deleteMessage := [CHR 0x22] @ entry_title l @ [CHR 0x22] @ '' will be permanently deleted.'',
             deleteDialogOpen := True \<rparr>)"

definition handleLogClick :: "click_target \<Rightarrow> app \<Rightarrow> (error \<times> app) + app" where
  "handleLogClick target s =
     (case target of
        DeleteButton logId \<Rightarrow> Inr (deleteLog logId s)
      | Elsewhere \<Rightarrow> Inr s
      | Card cardId \<Rightarrow>
          (case find (\<lambda>l. entry_id l = cardId) (logs s) of
             None \<Rightarrow> Inr s
           | Some l \<Rightarrow>
               (let s1 = (if truthy (selectedRouteId s) \<and> selectedRouteId s \<noteq> Some (entry_id l)
                          then resetLayerStyle (the (selectedRouteId s))
                                 (stopRouteAnimation (the (selectedRouteId s)) s)
                          else s)
                in case l of
                     RouteLog r \<Rightarrow> animateRoute (log_id r) (coords r) (s1\<lparr> selectedRouteId := Some (log_id r) \<rparr>)
                   | SpotLog sp \<Rightarrow> Inr (s1\<lparr> selectedRouteId := None \<rparr>))))"

section \<open>Deleting and storing\<close>

definition entry_toJSON :: "(int \<Rightarrow> string) \<Rightarrow> entry \<Rightarrow> error + entry_json" where
  "entry_toJSON toISOString l =
     (case l of
        RouteLog r \<Rightarrow> map_sum id RouteJSON (Route_toJSON toISOString r)
      | SpotLog sp \<Rightarrow> map_sum id SpotJSON (Spot_toJSON toISOString sp))"

text \<open>\<open>this.#logs.map((log) => log.toJSON())\<close>: the first entry that raises ends the map.\<close>

fun map_toJSON :: "(int \<Rightarrow> string) \<Rightarrow> entry list \<Rightarrow> error + entry_json list" where
  "map_toJSON toISOString [] = Inr []"
| "map_toJSON toISOString (l # ls) =
     (case entry_toJSON toISOString l of
        Inl e \<Rightarrow> Inl e
      | Inr j \<Rightarrow> (case map_toJSON toISOString ls of Inl e \<Rightarrow> Inl e | Inr js \<Rightarrow> Inr (j # js)))"

definition saveToLocalStorage :: "(int \<Rightarrow> string) \<Rightarrow> app \<Rightarrow> (error \<times> app) + app" where
  "saveToLocalStorage toISOString s =
     (case map_toJSON toISOString (logs s) of
        Inl e \<Rightarrow> Inl (e, s)
      | Inr data \<Rightarrow> Inr (s\<lparr> storedLogs := Some data \<rparr>))"

text \<open>\<open>document.querySelector(...)\<close> finds the first card with the id; \<open>card.remove()\<close>.\<close>

definition remove_card :: "string \<Rightarrow> app \<Rightarrow> app" where
  "remove_card logId s = s\<lparr> cards := remove1 logId (cards s) \<rparr>"

definition confirmDelete :: "(int \<Rightarrow> string) \<Rightarrow> app \<Rightarrow> (error \<times> app) + app" where
  "confirmDelete toISOString s =
     (if \<not> truthy (pendingDeleteId s) then Inr s
      else
        (let logId = the (pendingDeleteId s);
             s1 = (if selectedRouteId s = Some logId then deselectRoute s else s);
             s2 = stopRouteAnimation logId s1;
             s3 = (case drawnLayers s2 logId of
                     None \<Rightarrow> s2
                   | Some lay \<Rightarrow> s2\<lparr> drawnLayers := (drawnLayers s2)(logId := None) \<rparr>);
             s4 = s3\<lparr> logs := filter (\<lambda>l. entry_id l \<noteq> logId) (logs s3) \<rparr>;
             s5 = remove_card logId s4
         in case saveToLocalStorage toISOString s5 of
              Inl err \<Rightarrow> Inl err
            | Inr s6 \<Rightarrow> Inr (s6\<lparr> pendingDeleteId := None, deleteDialogOpen := False \<rparr>)))"

definition cancelDelete :: "app \<Rightarrow> app" where
  "cancelDelete s = s\<lparr> pendingDeleteId := None, deleteDialogOpen := False \<rparr>"

section \<open>Loading\<close>

text \<open>A value as \<open>JSON.parse\<close> returns it; an object lists its properties in source order.\<close>

datatype json =
    JNull
  | JBool bool
  | JNumber number
  | JString string
  | JArray "json list"
  | JObject "(string \<times> json) list"

text \<open>
  Reading the property \<open>type\<close>: \<open>TypeError\<close> on \<open>null\<close>, the value of the last property
  of that name on an object, \<open>undefined\<close> (\<open>None\<close>) on everything else.
\<close>

fun get_type :: "json \<Rightarrow> error + json option" where
  "get_type JNull = Inl TypeError"
| "get_type (JObject props) = Inr (map_of (rev props) ''type'')"
| "get_type _ = Inr None"

text \<open>
  The callback of \<open>logsData.map(...)\<close>. \<open>Route.fromJSON\<close> and \<open>Spot.fromJSON\<close> on a parsed
  value are the parameters \<open>route_of\<close> and \<open>spot_of\<close>: they are reached only on an object,
  where reading a property cannot raise. The result \<open>None\<close> is the callback's \<open>null\<close>.
\<close>

definition load_record :: "(json \<Rightarrow> route) \<Rightarrow> (json \<Rightarrow> spot) \<Rightarrow> json \<Rightarrow> error + entry option" where
  "load_record route_of spot_of obj =
     (case get_type obj of
        Inl e \<Rightarrow> Inl e
      | Inr t \<Rightarrow>
          if t = Some (JString ''route'') then Inr (Some (RouteLog (route_of obj)))
          else if t = Some (JString ''spot'') then Inr (Some (SpotLog (spot_of obj)))
          else Inr None)"

fun map_records :: "(json \<Rightarrow> route) \<Rightarrow> (json \<Rightarrow> spot) \<Rightarrow> json list \<Rightarrow> error + entry option list" where
  "map_records route_of spot_of [] = Inr []"
| "map_records route_of spot_of (obj # objs) =
     (case load_record route_of spot_of obj of
        Inl e \<Rightarrow> Inl e
      | Inr r \<Rightarrow>
          (case map_records route_of spot_of objs of Inl e \<Rightarrow> Inl e | Inr rs \<Rightarrow> Inr (r # rs)))"

text \<open>\<open>.filter(Boolean)\<close> drops the \<open>null\<close> results.\<close>

definition filter_Boolean :: "entry option list \<Rightarrow> entry list" where
  "filter_Boolean rs = map the (filter (\<lambda>r. r \<noteq> None) rs)"

text \<open>
  The body of the \<open>try\<close> on the parsed value: \<open>.map\<close> exists on an array only, so that any
  other value raises \<open>TypeError\<close>.
\<close>

definition load_parsed :: "(json \<Rightarrow> route) \<Rightarrow> (json \<Rightarrow> spot) \<Rightarrow> json \<Rightarrow> error + entry list" where
  "load_parsed route_of spot_of logsData =
     (case logsData of
        JArray objs \<Rightarrow> map_sum id filter_Boolean (map_records route_of spot_of objs)
      | _ \<Rightarrow> Inl TypeError)"

text \<open>
  \<open>#loadFromLocalStorage\<close>. \<open>data\<close> is what \<open>localStorage.getItem\<close> returns, \<open>None\<close> for
  \<open>null\<close>; \<open>JSON_parse\<close> is the host's parser, \<open>None\<close> when it raises \<open>SyntaxError\<close>. The
  \<open>catch\<close> turns every error into the empty collection.
\<close>

definition loadFromLocalStorage ::
  "(string \<Rightarrow> json option) \<Rightarrow> (json \<Rightarrow> route) \<Rightarrow> (json \<Rightarrow> spot) \<Rightarrow> string option \<Rightarrow> app \<Rightarrow> app" where
  "loadFromLocalStorage JSON_parse route_of spot_of data s =
     (if \<not> truthy data then s
      else (case JSON_parse (the data) of
              None \<Rightarrow> s\<lparr> logs := [] \<rparr>
            | Some logsData \<Rightarrow>
                (case load_parsed route_of spot_of logsData of
                   Inl e \<Rightarrow> s\<lparr> logs := [] \<rparr>
                 | Inr ls \<Rightarrow> s\<lparr> logs := ls \<rparr>)))"

section \<open>The specification's formulations\<close>

text \<open>
  The path length as the specification words it: the sum of the point distances over
  the consecutive pairs of the points.
\<close>

definition pathLengthKm :: "coord list \<Rightarrow> number" where
  "pathLengthKm points =
     foldl js_add (Fin 0) (map (\<lambda>(p, q). haversineDistance p q) (zip points (tl points)))"

text \<open>The clamp into \<open>[0, 1]\<close> that the specification asks for before the final step.\<close>

definition clamp01 :: "real \<Rightarrow> real" where
  "clamp01 a = min 1 (max 0 a)"

text \<open>A number that is finite and not negative.\<close>

fun nonneg_finite :: "number \<Rightarrow> bool" where
  "nonneg_finite (Fin x) = (0 \<le> x)"
| "nonneg_finite _ = False"

text \<open>
  The fact about an unfinished drawing that \<open>#closeLoop\<close> relies on: once there are two
  points there is a polyline.
\<close>

definition polyline_inv :: "app \<Rightarrow> bool" where
  "polyline_inv s = (length (routePoints s) < 2 \<or> currentPolyline s \<noteq> None)"


section \<open>The haversine distance in binary64 arithmetic\<close>

text \<open>
  The definitions above compute with exact reals. The program computes with 64-bit
  binary floating point: every \<open>+\<close>, \<open>-\<close>, \<open>*\<close> and \<open>/\<close> returns the exact result rounded to
  the nearest number with a 53-bit significand, ties to the even one. \<open>binary64\<close> is this
  rounding, for results in the normal range (overflow and subnormal numbers are not
  modelled).
\<close>

definition round_ties_even :: "real \<Rightarrow> int" where
  "round_ties_even x =
     (let f = \<lfloor>x\<rfloor>; r = x - of_int f
      in if r < 1 / 2 then f else if 1 / 2 < r then f + 1 else if even f then f else f + 1)"

definition binary64 :: "real \<Rightarrow> real" where
  "binary64 x =
     (if x = 0 then 0
      else (let e = \<lfloor>log 2 \<bar>x\<bar>\<rfloor>
            in of_int (round_ties_even (x / 2 powr of_int (e - 52))) * 2 powr of_int (e - 52)))"

fun round_number :: "number \<Rightarrow> number" where
  "round_number (Fin x) = Fin (binary64 x)"
| "round_number n = n"

text \<open>\<open>Math.PI\<close>: the number \<open>3.141592653589793\<close>, that is \<open>0x1.921fb54442d18p+1\<close>.\<close>

definition Math_PI :: real where
  "Math_PI = 884279719003555 / 2 ^ 48"

text \<open>
  The functions the language leaves to the host (\<open>Math.sin\<close>, \<open>Math.cos\<close>, \<open>**\<close>,
  \<open>Math.sqrt\<close> and \<open>Math.atan2\<close> are implementation-approximated), on finite arguments.
\<close>

record host_math =
  host_sin :: "real \<Rightarrow> real"
  host_cos :: "real \<Rightarrow> real"
  host_pow :: "real \<Rightarrow> real \<Rightarrow> real"
  host_sqrt :: "real \<Rightarrow> real"
  host_atan2 :: "real \<Rightarrow> real \<Rightarrow> real"

text \<open>What the language fixes for them: the square root of a negative number is \<open>NaN\<close>,
  and \<open>NaN\<close> as an argument gives \<open>NaN\<close>.\<close>

fun sqrt_b64 :: "host_math \<Rightarrow> number \<Rightarrow> number" where
  "sqrt_b64 h (Fin x) = (if x < 0 then NaN else Fin (host_sqrt h x))"
| "sqrt_b64 h PosInf = PosInf"
| "sqrt_b64 h _ = NaN"

definition atan2_b64 :: "host_math \<Rightarrow> number \<Rightarrow> number \<Rightarrow> number" where
  "atan2_b64 h y x =
     (case (y, x) of
        (Fin y1, Fin x1) \<Rightarrow> Fin (host_atan2 h y1 x1)
      | _ \<Rightarrow> round_number (Math_atan2 y x))"

definition mul_b64 :: "number \<Rightarrow> number \<Rightarrow> number" where
  "mul_b64 x y = round_number (js_mul x y)"

text \<open>
  \<open>App.#haversineDistance\<close> once more, operation by operation in binary64, on
  coordinates that are binary64 numbers.
\<close>

definition haversine_a_b64 :: "host_math \<Rightarrow> coord \<Rightarrow> coord \<Rightarrow> real" where
  "haversine_a_b64 h coord1 coord2 =
     (let dLat = binary64 (binary64 (binary64 (fst coord2 - fst coord1) * Math_PI) / 180);
          dLon = binary64 (binary64 (binary64 (snd coord2 - snd coord1) * Math_PI) / 180)
      in binary64
           (host_pow h (host_sin h (binary64 (dLat / 2))) 2 +
            binary64
              (binary64
                 (host_cos h (binary64 (binary64 (fst coord1 * Math_PI) / 180)) *
                  host_cos h (binary64 (binary64 (fst coord2 * Math_PI) / 180))) *
               host_pow h (host_sin h (binary64 (dLon / 2))) 2)))"

definition haversineDistance_b64 :: "host_math \<Rightarrow> coord \<Rightarrow> coord \<Rightarrow> number" where
  "haversineDistance_b64 h coord1 coord2 =
     (let R = 6371;
          a = haversine_a_b64 h coord1 coord2
      in mul_b64 (mul_b64 (Fin R) (Fin 2))
           (atan2_b64 h (sqrt_b64 h (Fin a)) (sqrt_b64 h (Fin (binary64 (1 - a))))))"

text \<open>
  A host that rounds the exact value of each function, with the values of \<open>Math.sin\<close> and
  \<open>Math.cos\<close> written out at the arguments used below.
\<close>

definition rounding_host :: host_math where
  "rounding_host =
     \<lparr> host_sin = (\<lambda>x. if x = 6847500571811759 / 2 ^ 53 then 775840420243213 / 2 ^ 50
                        else if x = 884279719003555 / 2 ^ 49 then 1
                        else binary64 (sin x)),
       host_cos = (\<lambda>x. if \<bar>x\<bar> = 6847500571811759 / 2 ^ 53 then 6527344293269975 / 2 ^ 53
                        else binary64 (cos x)),
       host_pow = (\<lambda>x y. binary64 (if y = 2 then x * x else x powr y)),
       host_sqrt = (\<lambda>x. binary64 (sqrt x)),
       host_atan2 = (\<lambda>y x. binary64 (atan2_real y x)) \<rparr>"

section \<open>Example entries and states\<close>

text \<open>
  Two routes and a spot, created an hour apart, and the states the handlers lead to
  from them: loaded and rendered, the first route's card clicked, and then its delete
  button clicked.
\<close>

definition example_route :: route where
  "example_route =
     Route_constructor 1704067200000 1704067200000 [(28.6, 77.2), (28.61, 77.21)] (Fin 1.5)
       (Some ''Morning run'') (Some (Fin 15)) None"

definition example_route2 :: route where
  "example_route2 =
     Route_constructor 1704070800000 1704070800000 [(28.6, 77.2), (28.7, 77.3), (28.8, 77.2)]
       (Fin 25) (Some ''Long ride'') None None"

definition example_spot :: spot where
  "example_spot =
     Spot_constructor 1704074400000 1704074400000 (28.61, 77.21) (Some ''Cafe'') None"

text \<open>
  The host's \<open>toISOString\<close> and date parser at the dates of the examples. Another string,
  such as \<open>yesterday\<close>, is no date.
\<close>

definition example_toISOString :: "int \<Rightarrow> string" where
  "example_toISOString t =
     (if t = 1704067200000 then ''2024-01-01T00:00:00.000Z''
      else if t = 1704070800000 then ''2024-01-01T01:00:00.000Z''
      else ''2024-01-01T02:00:00.000Z'')"

definition example_Date_parse :: "string \<Rightarrow> int option" where
  "example_Date_parse str =
     (if str = ''2024-01-01T00:00:00.000Z'' then Some 1704067200000
      else if str = ''2024-01-01T01:00:00.000Z'' then Some 1704070800000
      else if str = ''2024-01-01T02:00:00.000Z'' then Some 1704074400000
      else None)"

definition example_animation :: animation where
  "example_animation =
     \<lparr> anim_logId = ''4067200000'', anim_coords = [(28.6, 77.2), (28.61, 77.21)],
       animationDuration =
         Math_min
           (Math_max (js_mul (calculateTotalDistance [(28.6, 77.2), (28.61, 77.21)]) (Fin 200))
              (Fin 500))
           (Fin 2000),
       startTime = None, phase = Progress \<rparr>"

definition loaded_app :: app where
  "loaded_app =
     loadMap_render
       (initial_app\<lparr> logs := [RouteLog example_route, RouteLog example_route2, SpotLog example_spot] \<rparr>)"

definition selected_app :: app where
  "selected_app =
     (case handleLogClick (Card ''4067200000'') loaded_app of
        Inr s \<Rightarrow> s
      | Inl (e, s) \<Rightarrow> s)"

definition pending_delete_app :: app where
  "pending_delete_app = deleteLog ''4067200000'' selected_app"

section \<open>The live distance of a drawing session\<close>

lemma calculateTotalDistance_loop_foldl:
  "1 \<le> i \<Longrightarrow>
   calculateTotalDistance_loop points i tot =
     foldl js_add tot
       (map (\<lambda>(p, q). haversineDistance p q) (drop (i - 1) (zip points (tl points))))"
proof (induction points i tot rule: calculateTotalDistance_loop.induct)
  case (1 points i tot)
  let ?z = "zip points (tl points)"
  show ?case
  proof (cases "i < length points")
    case True
    from True "1.prems" have len: "i - 1 < length ?z" by simp
    from True "1.prems" have nth: "?z ! (i - 1) = (points ! (i - 1), points ! i)"
      by (simp add: nth_tl)
    from len have "drop (i - 1) ?z = ?z ! (i - 1) # drop (Suc (i - 1)) ?z"
      by (rule Cons_nth_drop_Suc [symmetric])
    with "1.prems" nth have dr: "drop (i - 1) ?z = (points ! (i - 1), points ! i) # drop i ?z"
      by simp
    from True "1.prems" "1.IH" have
      "calculateTotalDistance_loop points (i + 1)
         (js_add tot (haversineDistance (points ! (i - 1)) (points ! i)))
       = foldl js_add (js_add tot (haversineDistance (points ! (i - 1)) (points ! i)))
           (map (\<lambda>(p, q). haversineDistance p q) (drop i ?z))"
      by simp
    with True dr show ?thesis
      by (subst calculateTotalDistance_loop.simps) simp
  next
    case False
    then have "drop (i - 1) ?z = []" by simp
    with False show ?thesis
      by (subst calculateTotalDistance_loop.simps) simp
  qed
qed

lemma calculateTotalDistance_pathLengthKm: "calculateTotalDistance points = pathLengthKm points"
  by (simp add: calculateTotalDistance_def pathLengthKm_def calculateTotalDistance_loop_foldl)

lemma routePoints_addRoutePoint: "routePoints (addRoutePoint p s) = routePoints s @ [p]"
  by (simp add: addRoutePoint_def Let_def updateModeUI_def updateDistanceDisplay_def)

lemma currentDistance_addRoutePoint:
  "currentDistance (addRoutePoint p s) =
     (if 2 \<le> length (routePoints s @ [p]) then calculateTotalDistance (routePoints s @ [p])
      else currentDistance s)"
  by (simp add: addRoutePoint_def Let_def updateModeUI_def updateDistanceDisplay_def)

lemma session_distance_invariant:
  assumes "routePoints s0 = []" and "currentDistance s0 = Fin 0"
  shows "routePoints (foldl (\<lambda>s p. addRoutePoint p s) s0 ps) = ps \<and>
         currentDistance (foldl (\<lambda>s p. addRoutePoint p s) s0 ps) = pathLengthKm ps"
proof (induction ps rule: rev_induct)
  case Nil
  from assms show ?case by (simp add: pathLengthKm_def)
next
  case (snoc p ps)
  show ?case
  proof (cases "2 \<le> length (ps @ [p])")
    case True
    with snoc show ?thesis
      by (simp add: routePoints_addRoutePoint currentDistance_addRoutePoint
          calculateTotalDistance_pathLengthKm)
  next
    case False
    then have "ps = []" by (cases ps) simp_all
    with snoc False show ?thesis
      by (simp add: routePoints_addRoutePoint currentDistance_addRoutePoint pathLengthKm_def)
  qed
qed

text \<open>
  Claim C1. A session that starts with no points and distance 0 and then receives any
  sequence \<open>ps\<close> of \<open>addRoutePoint\<close> calls holds exactly the points \<open>ps\<close>, and its
  \<open>currentDistance\<close> is \<open>calculateTotalDistance\<close> of these points, which is the sum of the
  haversine distances over their consecutive pairs; that sum is 0 for no point and for a
  single point.
\<close>

theorem live_distance_is_recomputed_path_length:
  assumes "routePoints s0 = []" and "currentDistance s0 = Fin 0"
  shows "routePoints (foldl (\<lambda>s p. addRoutePoint p s) s0 ps) = ps \<and>
         currentDistance (foldl (\<lambda>s p. addRoutePoint p s) s0 ps) = calculateTotalDistance ps \<and>
         calculateTotalDistance ps = pathLengthKm ps \<and>
         pathLengthKm [] = Fin 0 \<and> pathLengthKm [p] = Fin 0"
proof -
  have "pathLengthKm [] = Fin 0" and "pathLengthKm [p] = Fin 0"
    by (simp_all add: pathLengthKm_def)
  with session_distance_invariant [OF assms, of ps] show ?thesis
    by (simp add: calculateTotalDistance_pathLengthKm)
qed

theorem live_distance_is_recomputed_path_length_witness:
  "routePoints initial_app = [] \<and> currentDistance initial_app = Fin 0 \<and>
   routePoints (foldl (\<lambda>s p. addRoutePoint p s) initial_app [(0, 0), (0, 1), (1, 1)])
     = [(0, 0), (0, 1), (1, 1)] \<and>
   currentDistance (foldl (\<lambda>s p. addRoutePoint p s) initial_app [(0, 0), (0, 1), (1, 1)])
     = calculateTotalDistance [(0, 0), (0, 1), (1, 1)] \<and>
   calculateTotalDistance [(0, 0), (0, 1), (1, 1)]
     = js_add (js_add (Fin 0) (haversineDistance (0, 0) (0, 1))) (haversineDistance (0, 1) (1, 1))"
proof -
  have e: "routePoints initial_app = []" and d: "currentDistance initial_app = Fin 0"
    by (simp_all add: initial_app_def)
  from live_distance_is_recomputed_path_length [OF e d, of "[(0, 0), (0, 1), (1, 1)]"] e d
  show ?thesis
    by (simp add: pathLengthKm_def)
qed

section \<open>The haversine distance in exact arithmetic\<close>

lemma haversine_mix_bounds:
  fixes c1 c2 h :: real
  assumes "- 1 \<le> c1" "c1 \<le> 1" "- 1 \<le> c2" "c2 \<le> 1" "0 \<le> h" "h \<le> 1"
  shows "0 \<le> (1 - c1) / 2 + h * ((c1 + c2) / 2) \<and> (1 - c1) / 2 + h * ((c1 + c2) / 2) \<le> 1"
proof -
  have lo: "(1 - c1) / 2 + h * ((c1 + c2) / 2) = ((1 - c1) * (1 - h) + h * (1 + c2)) / 2"
    by (simp add: algebra_simps add_divide_distrib diff_divide_distrib)
  have hi: "1 - ((1 - c1) / 2 + h * ((c1 + c2) / 2)) = ((1 + c1) * (1 - h) + h * (1 - c2)) / 2"
    by (simp add: algebra_simps add_divide_distrib diff_divide_distrib)
  from assms have p: "0 \<le> (1 - c1) * (1 - h)" "0 \<le> h * (1 + c2)"
    and q: "0 \<le> (1 + c1) * (1 - h)" "0 \<le> h * (1 - c2)"
    by simp_all
  from p have "0 \<le> ((1 - c1) * (1 - h) + h * (1 + c2)) / 2" by simp
  then have low: "0 \<le> (1 - c1) / 2 + h * ((c1 + c2) / 2)" by (simp only: lo)
  from q have "0 \<le> ((1 + c1) * (1 - h) + h * (1 - c2)) / 2" by simp
  then have "0 \<le> 1 - ((1 - c1) / 2 + h * ((c1 + c2) / 2))" by (simp only: hi)
  then have "(1 - c1) / 2 + h * ((c1 + c2) / 2) \<le> 1" by linarith
  with low show ?thesis by blast
qed

lemma sin_half_squared: "(sin (t / 2))\<^sup>2 = (1 - cos t) / (2::real)"
  using cos_double_sin [of "t / 2"] by simp

lemma haversine_core:
  fixes x y h :: real
  shows "(sin ((y - x) / 2))\<^sup>2 + cos x * cos y * h =
         (1 - cos (x - y)) / 2 + h * ((cos (x - y) + cos (x + y)) / 2)"
proof -
  have "cos (y - x) = cos (x - y)"
    using cos_minus [of "x - y"] by simp
  then have "(sin ((y - x) / 2))\<^sup>2 = (1 - cos (x - y)) / 2"
    by (simp only: sin_half_squared)
  moreover have "cos x * cos y * h = h * ((cos (x - y) + cos (x + y)) / 2)"
    by (simp only: cos_times_cos mult.commute)
  ultimately show ?thesis by (simp only:)
qed

lemma haversine_core_bounds:
  fixes x y h :: real
  assumes "0 \<le> h" and "h \<le> 1"
  shows "0 \<le> (sin ((y - x) / 2))\<^sup>2 + cos x * cos y * h \<and>
         (sin ((y - x) / 2))\<^sup>2 + cos x * cos y * h \<le> 1"
  unfolding haversine_core
  by (rule haversine_mix_bounds [OF cos_ge_minus_one cos_le_one cos_ge_minus_one cos_le_one assms])

lemma haversine_a_bounds: "0 \<le> haversine_a c1 c2 \<and> haversine_a c1 c2 \<le> 1"
proof -
  have d: "(fst c2 - fst c1) * pi / 180 / 2 = (fst c2 * pi / 180 - fst c1 * pi / 180) / 2"
    by (simp add: left_diff_distrib diff_divide_distrib)
  have eq: "haversine_a c1 c2 =
      (sin ((fst c2 * pi / 180 - fst c1 * pi / 180) / 2))\<^sup>2 +
      cos (fst c1 * pi / 180) * cos (fst c2 * pi / 180) *
        (sin ((snd c2 - snd c1) * pi / 180 / 2))\<^sup>2"
    by (simp only: haversine_a_def Let_def d)
  have h0: "0 \<le> (sin ((snd c2 - snd c1) * pi / 180 / 2))\<^sup>2" by simp
  have "\<bar>sin ((snd c2 - snd c1) * pi / 180 / 2)\<bar> \<le> 1" by (rule abs_sin_le_one)
  then have h1: "(sin ((snd c2 - snd c1) * pi / 180 / 2))\<^sup>2 \<le> 1"
    by (simp add: abs_square_le_1)
  show ?thesis
    unfolding eq by (rule haversine_core_bounds [OF h0 h1])
qed

lemma atan2_real_nonneg: "0 \<le> y \<Longrightarrow> 0 \<le> x \<Longrightarrow> 0 \<le> atan2_real y x"
  by (simp add: atan2_real_def)

lemma haversine_final_unit:
  assumes "0 \<le> a" and "a \<le> 1"
  shows "haversine_final a = Fin (6371 * 2 * atan2_real (sqrt a) (sqrt (1 - a)))"
  using assms by (simp add: haversine_final_def Let_def)

lemma haversineDistance_finite:
  "haversineDistance c1 c2 =
     Fin (6371 * 2 * atan2_real (sqrt (haversine_a c1 c2)) (sqrt (1 - haversine_a c1 c2)))"
  using haversine_a_bounds [of c1 c2] by (simp add: haversineDistance_def haversine_final_unit)

lemma haversineDistance_nonneg: "nonneg_finite (haversineDistance c1 c2)"
proof -
  from haversine_a_bounds [of c1 c2]
  have "0 \<le> atan2_real (sqrt (haversine_a c1 c2)) (sqrt (1 - haversine_a c1 c2))"
    by (intro atan2_real_nonneg) simp_all
  then show ?thesis by (simp add: haversineDistance_finite)
qed

lemma haversine_a_same: "haversine_a c c = 0"
  by (simp add: haversine_a_def)

lemma haversineDistance_same: "haversineDistance c c = Fin 0"
  by (simp add: haversineDistance_def haversine_a_same haversine_final_def atan2_real_def)

text \<open>
  An upper bound for short distances, and with it the loop-closing example of the
  specification: the click at \<open>(0.00002, 0.00002)\<close> is less than 0.05 km from \<open>(0, 0)\<close>.
\<close>

lemma arctan_le_self:
  fixes x :: real
  assumes "0 \<le> x"
  shows "arctan x \<le> x"
proof -
  have "(\<lambda>t. t - arctan t) 0 \<le> (\<lambda>t. t - arctan t) x"
  proof (rule DERIV_nonneg_imp_nondecreasing [OF assms])
    fix t :: real
    have "DERIV (\<lambda>t. t - arctan t) t :> 1 - inverse (1 + t\<^sup>2)"
      by (intro derivative_intros DERIV_arctan)
    moreover have "inverse (1 + t\<^sup>2) \<le> 1"
      by (rule inverse_le_1_iff [THEN iffD2]) simp
    ultimately show "\<exists>y. DERIV (\<lambda>t. t - arctan t) t :> y \<and> 0 \<le> y"
      by (intro exI [of _ "1 - inverse (1 + t\<^sup>2)"]) simp
  qed
  then show ?thesis by simp
qed

lemma haversineDistance_small:
  assumes "haversine_a c1 c2 \<le> 1 / 10 ^ 12"
  shows "\<exists>d. haversineDistance c1 c2 = Fin d \<and> d < 0.05"
proof -
  let ?a = "haversine_a c1 c2"
  from haversine_a_bounds [of c1 c2] have a0: "0 \<le> ?a" by simp
  have "sqrt ?a \<le> 1 / 10 ^ 6"
  proof (rule real_le_lsqrt)
    show "(0::real) \<le> 1 / 10 ^ 6" by simp
    have "((1::real) / 10 ^ 6)\<^sup>2 = 1 / 10 ^ 12" by (simp add: power2_eq_square)
    with assms show "?a \<le> (1 / 10 ^ 6)\<^sup>2" by (simp only:)
  qed
  then have num: "sqrt ?a \<le> 1 / 1000000" by simp
  from assms have "(1 / 2)\<^sup>2 \<le> 1 - ?a" by (simp add: power2_eq_square)
  then have den: "1 / 2 \<le> sqrt (1 - ?a)" by (rule real_le_rsqrt)
  then have pos: "0 < sqrt (1 - ?a)" by linarith
  from a0 have n0: "0 \<le> sqrt ?a" by simp
  have "sqrt ?a / sqrt (1 - ?a) \<le> (1 / 1000000) / (1 / 2)"
    by (rule frac_le [OF _ num _ den]) simp_all
  then have ratio: "sqrt ?a / sqrt (1 - ?a) \<le> 2 / 1000000" by simp
  from n0 pos have r0: "0 \<le> sqrt ?a / sqrt (1 - ?a)" by simp
  from pos have "atan2_real (sqrt ?a) (sqrt (1 - ?a)) = arctan (sqrt ?a / sqrt (1 - ?a))"
    by (simp add: atan2_real_def)
  also from r0 have "\<dots> \<le> sqrt ?a / sqrt (1 - ?a)" by (rule arctan_le_self)
  finally have "atan2_real (sqrt ?a) (sqrt (1 - ?a)) \<le> 2 / 1000000"
    using ratio by linarith
  then have "6371 * 2 * atan2_real (sqrt ?a) (sqrt (1 - ?a)) < 0.05" by simp
  then show ?thesis by (simp add: haversineDistance_finite)
qed

lemma sin_squared_le: "(sin (x::real))\<^sup>2 \<le> x\<^sup>2"
proof -
  have "\<bar>sin x\<bar> \<le> \<bar>x\<bar>" by (rule abs_sin_x_le_abs_x)
  then show ?thesis by (simp only: abs_le_square_iff)
qed

lemma haversine_a_loop_closing_example: "haversine_a (0.00002, 0.00002) (0, 0) \<le> 1 / 10 ^ 12"
proof -
  let ?h = "(sin ((0 - 0.00002) * pi / 180 / 2))\<^sup>2"
  let ?c = "cos (0.00002 * pi / 180)"
  have a: "haversine_a (0.00002, 0.00002) (0, 0) = ?h + ?c * ?h"
    by (simp add: haversine_a_def Let_def)
  have h0: "0 \<le> ?h" by simp
  have c1: "?c \<le> 1" by (rule cos_le_one)
  from c1 h0 have "?c * ?h \<le> 1 * ?h" by (rule mult_right_mono)
  then have le2: "?h + ?c * ?h \<le> 2 * ?h" by simp
  have "?h \<le> ((0 - 0.00002) * pi / 180 / 2)\<^sup>2" by (rule sin_squared_le)
  also have "\<dots> = (pi / 18000000)\<^sup>2" by (simp add: power2_eq_square)
  also have "\<dots> \<le> (4 / 18000000)\<^sup>2"
    using pi_less_4 by (intro power_mono) simp_all
  finally have "?h \<le> (4 / 18000000)\<^sup>2" .
  then have "2 * ?h \<le> 2 * (4 / 18000000)\<^sup>2" by simp
  also have "\<dots> \<le> 1 / 10 ^ 12" by (simp add: power2_eq_square)
  finally have "2 * ?h \<le> 1 / 10 ^ 12" .
  with le2 a show ?thesis by linarith
qed

lemma loop_closing_example_near_start: "js_lt (haversineDistance (0.00002, 0.00002) (0, 0)) (Fin 0.05)"
proof -
  from haversineDistance_small [OF haversine_a_loop_closing_example]
  obtain d where "haversineDistance (0.00002, 0.00002) (0, 0) = Fin d" and "d < 0.05" by blast
  then show ?thesis by simp
qed

section \<open>The distance of near-antipodal points\<close>

text \<open>
  The lemmas above are about exact arithmetic, where the intermediate value \<open>a\<close> cannot
  leave \<open>[0, 1]\<close>. In binary64 arithmetic it can. \<open>binary64_at\<close> evaluates a rounding
  once the binary exponent of the argument is known; the lemmas after it are the
  roundings that the computation below goes through.
\<close>

lemma binary64_at:
  assumes lo: "2 ^ 52 \<le> \<bar>x\<bar> * 2 ^ n" and hi: "\<bar>x\<bar> * 2 ^ n < 2 ^ 53"
  shows "binary64 x = of_int (round_ties_even (x * 2 ^ n)) / 2 ^ n"
proof -
  from lo have x0: "x \<noteq> 0" by auto
  then have pos: "0 < \<bar>x\<bar>" by simp
  have p52: "(2::real) powr of_int (52 - int n) = 2 ^ 52 / 2 ^ n"
  proof -
    have "(2::real) powr of_int (52 - int n) = 2 powr (52 - real n)" by simp
    also have "\<dots> = 2 powr 52 / 2 powr real n" by (rule powr_diff)
    also have "\<dots> = 2 ^ 52 / 2 ^ n" by (simp add: powr_realpow)
    finally show ?thesis .
  qed
  have p53: "(2::real) powr of_int (52 - int n + 1) = 2 ^ 53 / 2 ^ n"
  proof -
    have "(2::real) powr of_int (52 - int n + 1) = 2 powr (53 - real n)" by simp
    also have "\<dots> = 2 powr 53 / 2 powr real n" by (rule powr_diff)
    also have "\<dots> = 2 ^ 53 / 2 ^ n" by (simp add: powr_realpow)
    finally show ?thesis .
  qed
  have l: "2 powr of_int (52 - int n) \<le> \<bar>x\<bar>"
    unfolding p52 using lo by (simp add: pos_divide_le_eq)
  have u: "\<bar>x\<bar> < 2 powr of_int (52 - int n + 1)"
    unfolding p53 using hi by (simp add: pos_less_divide_eq)
  have "\<lfloor>log 2 \<bar>x\<bar>\<rfloor> = 52 - int n"
    using floor_log_eq_powr_iff [of "\<bar>x\<bar>" 2 "52 - int n"] pos l u by simp
  then have e: "real_of_int \<lfloor>log 2 \<bar>x\<bar>\<rfloor> - 52 = - real n" by simp
  have q': "(2::real) powr (- real n) = 1 / 2 ^ n"
    by (simp add: powr_minus powr_realpow inverse_eq_divide)
  from x0 show ?thesis
    by (simp add: binary64_def Let_def e q')
qed

lemma b64_lat2: "binary64 (43.5577) = 3065100648267435 / 2 ^ 46"
  by (subst binary64_at [where n = 47]) (simp_all add: round_ties_even_def Let_def Math_PI_def)

lemma b64_lat1: "binary64 (- 43.5577) = - (3065100648267435 / 2 ^ 46)"
  by (subst binary64_at [where n = 47]) (simp_all add: round_ties_even_def Let_def Math_PI_def)

lemma b64_lon1: "binary64 (- 28.3277) = - (3986769348883225 / 2 ^ 47)"
  by (subst binary64_at [where n = 48]) (simp_all add: round_ties_even_def Let_def Math_PI_def)

lemma b64_lon2: "binary64 (151.6723) = 2668247319384477 / 2 ^ 44"
  by (subst binary64_at [where n = 45]) (simp_all add: round_ties_even_def Let_def Math_PI_def)

lemma b64_dlat_sub: "binary64 (3065100648267435 / 2 ^ 46 - - (3065100648267435 / 2 ^ 46)) = 3065100648267435 / 2 ^ 45"
  by (subst binary64_at [where n = 46]) (simp_all add: round_ties_even_def Let_def Math_PI_def)

lemma b64_dlat_mul: "binary64 (3065100648267435 / 2 ^ 45 * Math_PI) = 4814648839555143 / 2 ^ 44"
  by (subst binary64_at [where n = 44]) (simp_all add: round_ties_even_def Let_def Math_PI_def)

lemma b64_dlat_div: "binary64 (4814648839555143 / 2 ^ 44 / 180) = 6847500571811759 / 2 ^ 52"
  by (subst binary64_at [where n = 52]) (simp_all add: round_ties_even_def Let_def Math_PI_def)

lemma b64_dlat_half: "binary64 (6847500571811759 / 2 ^ 52 / 2) = 6847500571811759 / 2 ^ 53"
  by (subst binary64_at [where n = 53]) (simp_all add: round_ties_even_def Let_def Math_PI_def)

lemma b64_dlon_sub: "binary64 (2668247319384477 / 2 ^ 44 - - (3986769348883225 / 2 ^ 47)) = 180"
  by (subst binary64_at [where n = 45]) (simp_all add: round_ties_even_def Let_def Math_PI_def)

lemma b64_dlon_mul: "binary64 (180 * Math_PI) = 4974073419394997 / 2 ^ 43"
  by (subst binary64_at [where n = 43]) (simp_all add: round_ties_even_def Let_def Math_PI_def)

lemma b64_dlon_div: "binary64 (4974073419394997 / 2 ^ 43 / 180) = 884279719003555 / 2 ^ 48"
  by (subst binary64_at [where n = 51]) (simp_all add: round_ties_even_def Let_def Math_PI_def)

lemma b64_dlon_half: "binary64 (884279719003555 / 2 ^ 48 / 2) = 884279719003555 / 2 ^ 49"
  by (subst binary64_at [where n = 52]) (simp_all add: round_ties_even_def Let_def Math_PI_def)

lemma b64_lat1_mul: "binary64 (- (3065100648267435 / 2 ^ 46) * Math_PI) = - (4814648839555143 / 2 ^ 45)"
  by (subst binary64_at [where n = 45]) (simp_all add: round_ties_even_def Let_def Math_PI_def)

lemma b64_lat1_div: "binary64 (- (4814648839555143 / 2 ^ 45) / 180) = - (6847500571811759 / 2 ^ 53)"
  by (subst binary64_at [where n = 53]) (simp_all add: round_ties_even_def Let_def Math_PI_def)

lemma b64_lat2_mul: "binary64 (3065100648267435 / 2 ^ 46 * Math_PI) = 4814648839555143 / 2 ^ 45"
  by (subst binary64_at [where n = 45]) (simp_all add: round_ties_even_def Let_def Math_PI_def)

lemma b64_lat2_div: "binary64 (4814648839555143 / 2 ^ 45 / 180) = 6847500571811759 / 2 ^ 53"
  by (subst binary64_at [where n = 53]) (simp_all add: round_ties_even_def Let_def Math_PI_def)

lemma b64_sq: "binary64 (775840420243213 / 2 ^ 50 * (775840420243213 / 2 ^ 50)) = 8553916439995609 / 2 ^ 54"
  by (subst binary64_at [where n = 54]) (simp_all add: round_ties_even_def Let_def Math_PI_def)

lemma b64_coscos: "binary64 (6527344293269975 / 2 ^ 53 * (6527344293269975 / 2 ^ 53)) = 4730241034743189 / 2 ^ 53"
  by (subst binary64_at [where n = 53]) (simp_all add: round_ties_even_def Let_def Math_PI_def)

lemma b64_prod: "binary64 (4730241034743189 / 2 ^ 53 * 1) = 4730241034743189 / 2 ^ 53"
  by (subst binary64_at [where n = 53]) (simp_all add: round_ties_even_def Let_def Math_PI_def)

lemma b64_sum: "binary64 (8553916439995609 / 2 ^ 54 + 4730241034743189 / 2 ^ 53) = 4503599627370497 / 2 ^ 52"
  by (subst binary64_at [where n = 52]) (simp_all add: round_ties_even_def Let_def Math_PI_def)

lemma b64_one_minus: "binary64 (1 - 4503599627370497 / 2 ^ 52) = - (1 / 2 ^ 52)"
  by (subst binary64_at [where n = 104]) (simp_all add: round_ties_even_def Let_def Math_PI_def)

lemma b64_one: "binary64 (1) = 1"
  by (subst binary64_at [where n = 52]) (simp_all add: round_ties_even_def Let_def Math_PI_def)

lemmas b64_steps = b64_lat2 b64_lat1 b64_lon1 b64_lon2 b64_dlat_sub b64_dlat_mul b64_dlat_div
  b64_dlat_half b64_dlon_sub b64_dlon_mul b64_dlon_div b64_dlon_half b64_lat1_mul b64_lat1_div
  b64_lat2_mul b64_lat2_div b64_coscos b64_prod b64_sum

text \<open>
  Claim C8 at the coordinates \<open>[-43.5577, -28.3277]\<close> and \<open>[43.5577, 151.6723]\<close>. On a host
  whose \<open>Math.sin\<close>, \<open>Math.cos\<close> and \<open>**\<close> return the correctly rounded values at the
  arguments that occur, \<open>#haversineDistance\<close> computes \<open>a = 1 + 2\<^sup>-\<^sup>5\<^sup>2\<close>; nothing clamps it,
  \<open>1 - a\<close> is negative, \<open>Math.sqrt(1 - a)\<close> is \<open>NaN\<close>, and the distance returned is \<open>NaN\<close>.
\<close>

theorem haversineDistance_NaN_near_antipodal:
  assumes "host_sin h (6847500571811759 / 2 ^ 53) = 775840420243213 / 2 ^ 50"
    and "host_sin h (884279719003555 / 2 ^ 49) = 1"
    and "host_cos h (- (6847500571811759 / 2 ^ 53)) = 6527344293269975 / 2 ^ 53"
    and "host_cos h (6847500571811759 / 2 ^ 53) = 6527344293269975 / 2 ^ 53"
    and "host_pow h (775840420243213 / 2 ^ 50) 2 = 8553916439995609 / 2 ^ 54"
    and "host_pow h 1 2 = 1"
  shows "haversine_a_b64 h (binary64 (- 43.5577), binary64 (- 28.3277))
           (binary64 43.5577, binary64 151.6723) = 1 + 1 / 2 ^ 52 \<and>
         haversineDistance_b64 h (binary64 (- 43.5577), binary64 (- 28.3277))
           (binary64 43.5577, binary64 151.6723) = NaN"
proof -
  have a: "haversine_a_b64 h (binary64 (- 43.5577), binary64 (- 28.3277))
      (binary64 43.5577, binary64 151.6723) = 4503599627370497 / 2 ^ 52"
    unfolding haversine_a_b64_def Let_def fst_conv snd_conv
    by (simp only: b64_steps assms)
  have "haversineDistance_b64 h (binary64 (- 43.5577), binary64 (- 28.3277))
      (binary64 43.5577, binary64 151.6723) = NaN"
    unfolding haversineDistance_b64_def Let_def a b64_one_minus
    by (simp add: atan2_b64_def mul_b64_def)
  with a show ?thesis by simp
qed

theorem haversineDistance_NaN_near_antipodal_witness:
  "host_sin rounding_host (6847500571811759 / 2 ^ 53) = 775840420243213 / 2 ^ 50 \<and>
   host_sin rounding_host (884279719003555 / 2 ^ 49) = 1 \<and>
   host_cos rounding_host (- (6847500571811759 / 2 ^ 53)) = 6527344293269975 / 2 ^ 53 \<and>
   host_cos rounding_host (6847500571811759 / 2 ^ 53) = 6527344293269975 / 2 ^ 53 \<and>
   host_pow rounding_host (775840420243213 / 2 ^ 50) 2 = 8553916439995609 / 2 ^ 54 \<and>
   host_pow rounding_host 1 2 = 1 \<and>
   haversineDistance_b64 rounding_host (binary64 (- 43.5577), binary64 (- 28.3277))
     (binary64 43.5577, binary64 151.6723) = NaN"
proof -
  have s1: "host_sin rounding_host (6847500571811759 / 2 ^ 53) = 775840420243213 / 2 ^ 50"
    and s2: "host_sin rounding_host (884279719003555 / 2 ^ 49) = 1"
    and c1: "host_cos rounding_host (- (6847500571811759 / 2 ^ 53)) = 6527344293269975 / 2 ^ 53"
    and c2: "host_cos rounding_host (6847500571811759 / 2 ^ 53) = 6527344293269975 / 2 ^ 53"
    by (simp_all add: rounding_host_def)
  have "host_pow rounding_host (775840420243213 / 2 ^ 50) 2
      = binary64 (775840420243213 / 2 ^ 50 * (775840420243213 / 2 ^ 50))"
    by (simp add: rounding_host_def)
  then have p1: "host_pow rounding_host (775840420243213 / 2 ^ 50) 2 = 8553916439995609 / 2 ^ 54"
    by (simp only: b64_sq)
  have "host_pow rounding_host 1 2 = binary64 1"
    by (simp add: rounding_host_def)
  then have p2: "host_pow rounding_host 1 2 = 1"
    using b64_one by simp
  from haversineDistance_NaN_near_antipodal [OF s1 s2 c1 c2 p1 p2] s1 s2 c1 c2 p1 p2 show ?thesis by blast
qed

section \<open>Closing the loop\<close>

lemma polyline_inv_initial: "polyline_inv initial_app"
  by (simp add: polyline_inv_def initial_app_def)

lemma polyline_inv_clearDrawingState: "polyline_inv (clearDrawingState s)"
  by (simp add: polyline_inv_def clearDrawingState_def updateDistanceDisplay_def)

lemma polyline_inv_setMode: "polyline_inv s \<Longrightarrow> polyline_inv (setMode m s)"
  by (auto simp add: polyline_inv_def setMode_def clearDrawingState_def updateDistanceDisplay_def
      updateModeUI_def)

lemma polyline_inv_addRoutePoint: "polyline_inv (addRoutePoint p s)"
  by (cases "routePoints s") (auto simp add: polyline_inv_def addRoutePoint_def Let_def updateDistanceDisplay_def
      updateModeUI_def)

lemma polyline_inv_addSpot: "polyline_inv (addSpot p s)"
  by (auto simp add: polyline_inv_def addSpot_def openForm_def Let_def updateModeUI_def)

lemma polyline_inv_finishRoute: "polyline_inv s \<Longrightarrow> polyline_inv (finishRoute s)"
  by (auto simp add: polyline_inv_def finishRoute_def openForm_def Let_def updateModeUI_def)

lemma polyline_inv_cancelDrawing: "polyline_inv (cancelDrawing s)"
  by (simp add: polyline_inv_def cancelDrawing_def clearDrawingState_def
      updateDistanceDisplay_def updateModeUI_def)

lemma polyline_inv_closeForm: "polyline_inv (closeForm s)"
  by (simp add: polyline_inv_def closeForm_def clearDrawingState_def updateDistanceDisplay_def)

lemma polyline_inv_handleDoubleClick: "polyline_inv s \<Longrightarrow> polyline_inv (handleDoubleClick s)"
  by (simp add: handleDoubleClick_def polyline_inv_finishRoute)

lemma polyline_inv_handleKeydown: "polyline_inv s \<Longrightarrow> polyline_inv (handleKeydown k s)"
  by (simp add: handleKeydown_def Let_def polyline_inv_finishRoute polyline_inv_closeForm
      polyline_inv_cancelDrawing)

lemma closeLoop_ok:
  assumes "routePoints s = p0 # rest" and "currentPolyline s \<noteq> None"
  shows "closeLoop s =
     Inr (finishRoute (updateDistanceDisplay
            (s\<lparr> routePoints := routePoints s @ [p0],
                 currentPolyline := Some (routePoints s @ [p0]),
                 currentDistance := calculateTotalDistance (routePoints s @ [p0]) \<rparr>)))"
  using assms by (auto simp add: closeLoop_def Let_def)

lemma polyline_inv_handleMapClick:
  assumes "polyline_inv s" and "handleMapClick p s = Inr s'"
  shows "polyline_inv s'"
proof (cases "isDrawing s \<and> mode s = ModeRoute \<and> 2 \<le> length (routePoints s) \<and>
    js_lt (haversineDistance p (routePoints s ! 0)) (Fin 0.05)")
  case True
  with assms(1) have poly: "currentPolyline s \<noteq> None" by (simp add: polyline_inv_def)
  from True obtain p0 rest where pts: "routePoints s = p0 # rest"
    by (cases "routePoints s") auto
  from True assms(2) have "closeLoop s = Inr s'" by (simp add: handleMapClick_def)
  with closeLoop_ok [OF pts poly] show ?thesis
    by (auto simp add: polyline_inv_def finishRoute_def openForm_def Let_def updateModeUI_def
        updateDistanceDisplay_def)
next
  case False
  with assms show ?thesis
    by (auto simp add: handleMapClick_def polyline_inv_addRoutePoint polyline_inv_addSpot
        split: if_splits)
qed

text \<open>
  Claim C2. A click in route mode, with at least 2 points in the session and the clicked
  coordinate less than 0.05 km from the first point, does not append the clicked
  coordinate: it appends a copy of the first point, recomputes the distance, leaves route
  mode and opens the route form, all within the one click.
\<close>

theorem close_loop_shortcut:
  assumes "isDrawing s" and "mode s = ModeRoute" and "2 \<le> length (routePoints s)"
    and "js_lt (haversineDistance point (routePoints s ! 0)) (Fin 0.05)"
    and "polyline_inv s"
  shows "\<exists>s'. handleMapClick point s = Inr s' \<and>
           routePoints s' = routePoints s @ [routePoints s ! 0] \<and>
           vertexMarkers s' = vertexMarkers s \<and>
           currentDistance s' = calculateTotalDistance (routePoints s') \<and>
           mode s' = ModeNone \<and> \<not> isDrawing s' \<and>
           formOpen s' \<and> distanceFieldShown s'"
proof -
  from assms(3) obtain p0 rest where pts: "routePoints s = p0 # rest"
    by (cases "routePoints s") auto
  from assms(3,5) have poly: "currentPolyline s \<noteq> None" by (simp add: polyline_inv_def)
  from assms(1-4) have "handleMapClick point s = closeLoop s"
    by (simp add: handleMapClick_def)
  with closeLoop_ok [OF pts poly] pts assms(3) show ?thesis
    by (simp add: finishRoute_def openForm_def Let_def updateModeUI_def updateDistanceDisplay_def)
qed

theorem close_loop_shortcut_witness:
  "isDrawing (addRoutePoint (0, 0.001) (addRoutePoint (0, 0) (setMode ModeRoute initial_app))) \<and>
   mode (addRoutePoint (0, 0.001) (addRoutePoint (0, 0) (setMode ModeRoute initial_app))) = ModeRoute \<and>
   2 \<le> length (routePoints (addRoutePoint (0, 0.001) (addRoutePoint (0, 0) (setMode ModeRoute initial_app)))) \<and>
   js_lt (haversineDistance (0.00002, 0.00002)
      (routePoints (addRoutePoint (0, 0.001) (addRoutePoint (0, 0) (setMode ModeRoute initial_app))) ! 0))
      (Fin 0.05) \<and>
   polyline_inv (addRoutePoint (0, 0.001) (addRoutePoint (0, 0) (setMode ModeRoute initial_app))) \<and>
   (\<exists>s'. handleMapClick (0.00002, 0.00002)
            (addRoutePoint (0, 0.001) (addRoutePoint (0, 0) (setMode ModeRoute initial_app))) = Inr s' \<and>
         routePoints s' = [(0, 0), (0, 0.001), (0, 0)] \<and> mode s' = ModeNone \<and>
         \<not> isDrawing s' \<and> formOpen s')"
proof -
  let ?s = "addRoutePoint (0, 0.001) (addRoutePoint (0, 0) (setMode ModeRoute initial_app))"
  have pts: "routePoints ?s = [(0, 0), (0, 0.001)]"
    by (simp add: addRoutePoint_def setMode_def initial_app_def Let_def updateModeUI_def
        updateDistanceDisplay_def)
  have h1: "isDrawing ?s" and h2: "mode ?s = ModeRoute"
    by (simp_all add: addRoutePoint_def setMode_def initial_app_def Let_def updateModeUI_def
        updateDistanceDisplay_def)
  from pts have h3: "2 \<le> length (routePoints ?s)" by simp
  from pts have h4: "js_lt (haversineDistance (0.00002, 0.00002) (routePoints ?s ! 0)) (Fin 0.05)"
    using loop_closing_example_near_start by simp
  have h5: "polyline_inv ?s" by (rule polyline_inv_addRoutePoint)
  from close_loop_shortcut [OF h1 h2 h3 h4 h5] pts h1 h2 h3 h4 h5 show ?thesis
    by auto
qed

section \<open>Transitions of the drawing session that are not valid\<close>

text \<open>
  Claim C3, as amended. \<open>finishRoute\<close> with fewer than 2 points returns at once and leaves
  the whole state as it was. \<open>setMode\<close> rejects nothing: called with the mode the session
  is in, it switches the session off and clears the points and the distance; called with
  another mode, it switches to that mode and keeps the points and the distance.
\<close>

theorem finishRoute_rejects_and_setMode_toggles:
  "(length (routePoints s) < 2 \<longrightarrow> finishRoute s = s) \<and>
   (mode s = m \<longrightarrow>
      mode (setMode m s) = ModeNone \<and> \<not> isDrawing (setMode m s) \<and>
      routePoints (setMode m s) = [] \<and> currentDistance (setMode m s) = Fin 0) \<and>
   (mode s \<noteq> m \<longrightarrow>
      mode (setMode m s) = m \<and> isDrawing (setMode m s) \<and>
      routePoints (setMode m s) = routePoints s \<and>
      currentDistance (setMode m s) = currentDistance s)"
  by (simp add: finishRoute_def setMode_def updateModeUI_def clearDrawingState_def
      updateDistanceDisplay_def)

theorem finishRoute_rejects_and_setMode_toggles_witness:
  "length (routePoints (addRoutePoint (0, 0) (setMode ModeRoute initial_app))) < 2 \<and>
   finishRoute (addRoutePoint (0, 0) (setMode ModeRoute initial_app))
     = addRoutePoint (0, 0) (setMode ModeRoute initial_app) \<and>
   mode (addRoutePoint (0, 0) (setMode ModeRoute initial_app)) = ModeRoute \<and>
   routePoints (setMode ModeRoute (addRoutePoint (0, 0) (setMode ModeRoute initial_app))) = [] \<and>
   mode (addRoutePoint (0, 0) (setMode ModeRoute initial_app)) \<noteq> ModeSpot \<and>
   routePoints (setMode ModeSpot (addRoutePoint (0, 0) (setMode ModeRoute initial_app))) = [(0, 0)]"
proof -
  let ?s = "addRoutePoint (0, 0) (setMode ModeRoute initial_app)"
  have pts: "routePoints ?s = [(0, 0)]" and md: "mode ?s = ModeRoute"
    by (simp_all add: addRoutePoint_def setMode_def initial_app_def Let_def updateModeUI_def
        updateDistanceDisplay_def)
  from pts have short: "length (routePoints ?s) < 2" by simp
  from md have other: "mode ?s \<noteq> ModeSpot" by simp
  from finishRoute_rejects_and_setMode_toggles [of ?s ModeRoute]
    finishRoute_rejects_and_setMode_toggles [of ?s ModeSpot] short md other pts
  show ?thesis by simp
qed

text \<open>
  A session in route mode with one point: \<open>setMode\<close> with the same mode ends it and empties
  the points, \<open>setMode\<close> with the other mode changes the mode.
\<close>

theorem setMode_on_active_session_changes_it:
  "mode (addRoutePoint (0, 0) (setMode ModeRoute initial_app)) = ModeRoute \<and>
   isDrawing (addRoutePoint (0, 0) (setMode ModeRoute initial_app)) \<and>
   routePoints (addRoutePoint (0, 0) (setMode ModeRoute initial_app)) = [(0, 0)] \<and>
   mode (setMode ModeRoute (addRoutePoint (0, 0) (setMode ModeRoute initial_app))) = ModeNone \<and>
   routePoints (setMode ModeRoute (addRoutePoint (0, 0) (setMode ModeRoute initial_app))) = [] \<and>
   mode (setMode ModeSpot (addRoutePoint (0, 0) (setMode ModeRoute initial_app))) = ModeSpot"
  by (simp add: addRoutePoint_def setMode_def initial_app_def Let_def updateModeUI_def
        updateDistanceDisplay_def clearDrawingState_def)

section \<open>Entry ids\<close>











section \<open>Serialization round trip\<close>

text \<open>
  Claim C5, as amended. For a route and for a spot whose creation date is valid, on a
  host whose date parser reads the ISO-8601 string of that date back as the same time
  value, \<open>toJSON\<close> succeeds and \<open>fromJSON\<close> of its result has the same id, creation date,
  coordinates and variant fields (title, distance, duration and notes; title and
  description). The clock readings of the constructor call inside \<open>fromJSON\<close> do not
  show in the result.
\<close>

theorem fromJSON_toJSON_roundtrip:
  assumes "date r = Some t" and "date sp = Some u"
    and "Date_parse (toISOString t) = Some t" and "Date_parse (toISOString u) = Some u"
  shows "(\<exists>j. Route_toJSON toISOString r = Inr j \<and>
            log_id (Route_fromJSON Date_parse new_Date Date_now j) = log_id r \<and>
            date (Route_fromJSON Date_parse new_Date Date_now j) = date r \<and>
            coords (Route_fromJSON Date_parse new_Date Date_now j) = coords r \<and>
            title (Route_fromJSON Date_parse new_Date Date_now j) = title r \<and>
            distance (Route_fromJSON Date_parse new_Date Date_now j) = distance r \<and>
            duration (Route_fromJSON Date_parse new_Date Date_now j) = duration r \<and>
            route_notes (Route_fromJSON Date_parse new_Date Date_now j) = route_notes r) \<and>
         (\<exists>j. Spot_toJSON toISOString sp = Inr j \<and>
            log_id (Spot_fromJSON Date_parse new_Date Date_now j) = log_id sp \<and>
            date (Spot_fromJSON Date_parse new_Date Date_now j) = date sp \<and>
            coords (Spot_fromJSON Date_parse new_Date Date_now j) = coords sp \<and>
            spot_title (Spot_fromJSON Date_parse new_Date Date_now j) = spot_title sp \<and>
            description (Spot_fromJSON Date_parse new_Date Date_now j) = description sp)"
  using assms
  by (simp add: Route_toJSON_def Route_fromJSON_def Route_restoreFromJSON_def
      Route_constructor_def Spot_toJSON_def Spot_fromJSON_def Spot_restoreFromJSON_def
      Spot_constructor_def Let_def)

theorem fromJSON_toJSON_roundtrip_witness:
  "date example_route = Some 1704067200000 \<and>
   date example_spot = Some 1704074400000 \<and>
   example_Date_parse (example_toISOString 1704067200000) = Some 1704067200000 \<and>
   example_Date_parse (example_toISOString 1704074400000) = Some 1704074400000 \<and>
   (\<exists>j. Route_toJSON example_toISOString example_route = Inr j \<and>
        j_date j = ''2024-01-01T00:00:00.000Z'' \<and>
        date (Route_fromJSON example_Date_parse 1704078000000 1704078000000 j) = Some 1704067200000 \<and>
        log_id (Route_fromJSON example_Date_parse 1704078000000 1704078000000 j) = log_id example_route \<and>
        title (Route_fromJSON example_Date_parse 1704078000000 1704078000000 j) = ''Morning run'' \<and>
        distance (Route_fromJSON example_Date_parse 1704078000000 1704078000000 j) = Fin 1.5) \<and>
   (\<exists>j. Spot_toJSON example_toISOString example_spot = Inr j \<and>
        spot_title (Spot_fromJSON example_Date_parse 1704078000000 1704078000000 j) = ''Cafe'')"
proof -
  have dr: "date example_route = Some 1704067200000"
    by (simp add: example_route_def Route_constructor_def Let_def)
  have ds: "date example_spot = Some 1704074400000"
    by (simp add: example_spot_def Spot_constructor_def)
  have pr: "example_Date_parse (example_toISOString 1704067200000) = Some 1704067200000"
    and ps: "example_Date_parse (example_toISOString 1704074400000) = Some 1704074400000"
    by (simp_all add: example_Date_parse_def example_toISOString_def)
  have fr: "title example_route = ''Morning run''" "distance example_route = Fin 1.5"
    by (simp_all add: example_route_def Route_constructor_def Let_def)
  have fs: "spot_title example_spot = ''Cafe''"
    by (simp add: example_spot_def Spot_constructor_def)
  have iso: "example_toISOString 1704067200000 = ''2024-01-01T00:00:00.000Z''"
    by (simp add: example_toISOString_def)
  from fromJSON_toJSON_roundtrip [OF dr ds pr ps, of 1704078000000 1704078000000] dr ds pr ps
  show ?thesis
    by (auto simp add: fr fs Route_toJSON_def iso)
qed

text \<open>
  A stored record whose date is no date loads as an entry with the invalid date, and
  \<open>toJSON\<close> of that entry raises \<open>RangeError\<close>: it has no serialized form.
\<close>

theorem toJSON_throws_on_invalid_date:
  "date (Route_fromJSON example_Date_parse 1704078000000 1704078000000
           \<lparr> j_id = ''4067200000'', j_date = ''yesterday'',
             j_coords = [(28.6, 77.2), (28.61, 77.21)], j_type = ''route'',
             j_title = Some ''Morning run'', j_distance = Fin 1.5,
             j_duration = Some (Fin 15), j_notes = None \<rparr>) = None \<and>
   Route_toJSON example_toISOString
     (Route_fromJSON example_Date_parse 1704078000000 1704078000000
        \<lparr> j_id = ''4067200000'', j_date = ''yesterday'',
          j_coords = [(28.6, 77.2), (28.61, 77.21)], j_type = ''route'',
          j_title = Some ''Morning run'', j_distance = Fin 1.5,
          j_duration = Some (Fin 15), j_notes = None \<rparr>) = Inl RangeError \<and>
   Spot_toJSON example_toISOString
     (Spot_fromJSON example_Date_parse 1704078000000 1704078000000
        \<lparr> sj_id = ''4074400000'', sj_date = ''yesterday'', sj_coords = (28.61, 77.21),
          sj_type = ''spot'', sj_title = Some ''Cafe'', sj_description = None \<rparr>) = Inl RangeError"
  by (simp add: Route_toJSON_def Route_fromJSON_def Route_restoreFromJSON_def
      Route_constructor_def Spot_toJSON_def Spot_fromJSON_def Spot_restoreFromJSON_def
      Spot_constructor_def Let_def example_Date_parse_def)

section \<open>Pace\<close>

lemma calcPace_positive:
  "0 < d \<Longrightarrow> 0 < t \<Longrightarrow> calcPace (Fin d) (Fin t) = Fin (t / d)"
  by (simp add: calcPace_def)

lemma calcPace_zero: "calcPace (Fin 0) t = Fin 0" "calcPace d (Fin 0) = Fin 0"
  by (simp_all add: calcPace_def)

lemma calcPace_finite: "\<exists>p. calcPace (Fin d) (Fin t) = Fin p"
  by (simp add: calcPace_def)

text \<open>
  Claim C7 at a route of 2 km with the duration \<open>-10\<close>: the duration is not greater than 0,
  and the pace is \<open>-5\<close>, not the sentinel 0. \<open>#calcPace\<close> tests for equality with 0 only,
  where \<open>#updatePace\<close> tests \<open>duration > 0 && distance > 0\<close>.
\<close>

theorem calcPace_of_negative_duration:
  "calcPace (Fin 2) (Fin (- 10)) = Fin (- 5) \<and>
   pace (Route_constructor 1700000000000 1700000000000 [(0, 0), (0, 1)] (Fin 2)
           (Some ''Run'') (Some (Fin (- 10))) (Some [])) = Fin (- 5)"
  by (simp add: calcPace_def Route_constructor_def Let_def)

section \<open>Loading the stored entries\<close>

lemma load_record_unrecognized:
  "get_type obj = Inr t \<Longrightarrow> t \<noteq> Some (JString ''route'') \<Longrightarrow> t \<noteq> Some (JString ''spot'') \<Longrightarrow>
   load_record route_of spot_of obj = Inr None"
  by (simp add: load_record_def)

lemma load_record_null: "load_record route_of spot_of JNull = Inl TypeError"
  by (simp add: load_record_def)

text \<open>
  Claim C6 at the stored array \<open>[null, {"type": "spot", "id": "1"}]\<close>: reading \<open>obj.type\<close> on
  the \<open>null\<close> record raises inside \<open>.map\<close>, the \<open>catch\<close> around the whole load empties the
  collection, and the spot after it is lost. The same array without the \<open>null\<close> loads the
  spot.
\<close>

theorem load_aborts_on_null_record:
  "logs (loadFromLocalStorage
           (\<lambda>text. Some (JArray [JNull, JObject [(''type'', JString ''spot''), (''id'', JString ''1'')]]))
           route_of spot_of (Some ''[null,{\"type\":\"spot\",\"id\":\"1\"}]'') s) = [] \<and>
   logs (loadFromLocalStorage
           (\<lambda>text. Some (JArray [JObject [(''type'', JString ''spot''), (''id'', JString ''1'')]]))
           route_of spot_of (Some ''[{\"type\":\"spot\",\"id\":\"1\"}]'') s)
     = [SpotLog (spot_of (JObject [(''type'', JString ''spot''), (''id'', JString ''1'')]))]"
  by (simp add: loadFromLocalStorage_def truthy_def load_parsed_def load_record_def
      filter_Boolean_def)

section \<open>Hover and deletion\<close>

text \<open>
  The example states, field by field: the three entries rendered, the first route
  selected by a click on its card, with its animation running, and its deletion
  pending.
\<close>

lemma digit_chars:
  "digit_char 0 = CHR ''0''" "digit_char 2 = CHR ''2''" "digit_char 4 = CHR ''4''"
  "digit_char 6 = CHR ''6''" "digit_char 7 = CHR ''7''" "digit_char 8 = CHR ''8''"
  by code_simp+

lemma example_ids:
  "Log_id 1704067200000 = ''4067200000''"
  "Log_id 1704070800000 = ''4070800000''"
  "Log_id 1704074400000 = ''4074400000''"
  by (simp_all add: Log_id_def Number_toString_def slice_last_def dec_digits.simps digit_chars)

lemma example_route_fields:
  "log_id example_route = ''4067200000''"
  "coords example_route = [(28.6, 77.2), (28.61, 77.21)]"
  "date example_route = Some 1704067200000"
  by (simp_all add: example_route_def Route_constructor_def Let_def example_ids)

lemma example_route2_fields:
  "log_id example_route2 = ''4070800000''"
  "coords example_route2 = [(28.6, 77.2), (28.7, 77.3), (28.8, 77.2)]"
  "date example_route2 = Some 1704070800000"
  by (simp_all add: example_route2_def Route_constructor_def Let_def example_ids)

lemma example_spot_fields:
  "log_id example_spot = ''4074400000''"
  "coords example_spot = (28.61, 77.21)"
  "date example_spot = Some 1704074400000"
  by (simp_all add: example_spot_def Spot_constructor_def example_ids)

lemmas example_fields = example_route_fields example_route2_fields example_spot_fields

lemma loaded_app_eq:
  "loaded_app =
     initial_app
       \<lparr> logs := [RouteLog example_route, RouteLog example_route2, SpotLog example_spot],
         drawnLayers :=
           [''4067200000'' \<mapsto> Polyline [(28.6, 77.2), (28.61, 77.21)] defaultStyle,
            ''4070800000'' \<mapsto> Polyline [(28.6, 77.2), (28.7, 77.3), (28.8, 77.2)] defaultStyle,
            ''4074400000'' \<mapsto> Marker (28.61, 77.21)],
         cards := [''4067200000'', ''4070800000'', ''4074400000''] \<rparr>"
  by (simp add: loaded_app_def loadMap_render_def renderLogOnMap_def renderLogCard_def
      initial_app_def example_fields)

lemma selected_app_eq:
  "selected_app =
     loaded_app
       \<lparr> selectedRouteId := Some ''4067200000'',
         drawnLayers := (drawnLayers loaded_app)
           (''4067200000'' \<mapsto> Polyline [(28.6, 77.2), (28.61, 77.21)]
              \<lparr> color = ''#d1d5db'', weight = 4, opacity = 0.4 \<rparr>),
         animationLayers :=
           [''4067200000'' \<mapsto> Polyline [] \<lparr> color = ''#000000'', weight = 4, opacity = 1 \<rparr>],
         scheduledFrames := [1 \<mapsto> example_animation],
         nextFrameId := 2,
         activeAnimations := [''4067200000'' \<mapsto> 1] \<rparr>"
  by (simp add: selected_app_def loaded_app_eq handleLogClick_def truthy_def animateRoute_def
      stopRouteAnimation_def initial_app_def example_fields Let_def example_animation_def
      defaultStyle_def)

lemma click_selects_route: "handleLogClick (Card ''4067200000'') loaded_app = Inr selected_app"
  by (simp add: selected_app_def loaded_app_eq handleLogClick_def truthy_def animateRoute_def
      stopRouteAnimation_def initial_app_def example_fields Let_def)

lemma pending_delete_app_eq:
  "pending_delete_app =
     selected_app
       \<lparr> pendingDeleteId := Some ''4067200000'',
         deleteMessage := [CHR 0x22] @ ''Morning run'' @ [CHR 0x22] @ '' will be permanently deleted.'',
         deleteDialogOpen := True \<rparr>"
  by (simp add: pending_delete_app_def deleteLog_def selected_app_eq loaded_app_eq example_fields)
    (simp add: example_route_def Route_constructor_def Let_def)

text \<open>
  Claim C9. Hovering the card of the entry that is selected returns the state as it is:
  the selection, the running animation with its pending frame and overlay layer, and
  everything else.
\<close>

theorem hover_on_selected_changes_nothing:
  assumes "selectedRouteId s = Some logId"
  shows "handleLogHover (Some logId) s = Inr s"
  using assms by (simp add: handleLogHover_def)

theorem hover_on_selected_changes_nothing_witness:
  "selectedRouteId selected_app = Some ''4067200000'' \<and>
   handleLogHover (Some ''4067200000'') selected_app = Inr selected_app \<and>
   find (\<lambda>l. entry_id l = ''4067200000'') (logs selected_app) = Some (RouteLog example_route) \<and>
   drawnLayers selected_app ''4067200000''
     = Some (Polyline [(28.6, 77.2), (28.61, 77.21)] \<lparr> color = ''#d1d5db'', weight = 4, opacity = 0.4 \<rparr>) \<and>
   animationLayers selected_app ''4067200000''
     = Some (Polyline [] \<lparr> color = ''#000000'', weight = 4, opacity = 1 \<rparr>) \<and>
   activeAnimations selected_app ''4067200000'' = Some 1 \<and>
   scheduledFrames selected_app 1 = Some example_animation"
proof -
  have sel: "selectedRouteId selected_app = Some ''4067200000''"
    by (simp add: selected_app_eq)
  have populated:
    "find (\<lambda>l. entry_id l = ''4067200000'') (logs selected_app) = Some (RouteLog example_route)"
    "drawnLayers selected_app ''4067200000''
       = Some (Polyline [(28.6, 77.2), (28.61, 77.21)] \<lparr> color = ''#d1d5db'', weight = 4, opacity = 0.4 \<rparr>)"
    "animationLayers selected_app ''4067200000''
       = Some (Polyline [] \<lparr> color = ''#000000'', weight = 4, opacity = 1 \<rparr>)"
    "activeAnimations selected_app ''4067200000'' = Some 1"
    "scheduledFrames selected_app 1 = Some example_animation"
    by (simp_all add: selected_app_eq loaded_app_eq example_fields)
  from hover_on_selected_changes_nothing [OF sel] sel populated show ?thesis by blast
qed

lemma hover_on_other_route_starts_animation:
  "\<exists>s'. handleLogHover (Some ''4070800000'') selected_app = Inr s' \<and>
         activeAnimations s' ''4070800000'' = Some 2 \<and>
         activeAnimations selected_app ''4070800000'' = None \<and>
         activeAnimations s' ''4067200000'' = Some 1"
  by (simp add: handleLogHover_def selected_app_eq loaded_app_eq example_fields animateRoute_def
      stopRouteAnimation_def Let_def initial_app_def)

text \<open>
  Claim C10. \<open>#cancelDelete\<close> leaves the entries, the drawn layers, the animations with
  their overlay layers and pending frames, the selection, the cards and the stored array
  as they are; \<open>#confirmDelete\<close> with no pending id returns the state as it is.
\<close>

theorem cancel_path_of_delete_keeps_entries:
  "logs (cancelDelete s) = logs s \<and>
   drawnLayers (cancelDelete s) = drawnLayers s \<and>
   activeAnimations (cancelDelete s) = activeAnimations s \<and>
   animationLayers (cancelDelete s) = animationLayers s \<and>
   scheduledFrames (cancelDelete s) = scheduledFrames s \<and>
   selectedRouteId (cancelDelete s) = selectedRouteId s \<and>
   cards (cancelDelete s) = cards s \<and>
   storedLogs (cancelDelete s) = storedLogs s \<and>
   (pendingDeleteId s = None \<longrightarrow> confirmDelete toISOString s = Inr s)"
  by (simp add: cancelDelete_def confirmDelete_def truthy_def)

theorem cancel_path_of_delete_keeps_entries_witness:
  "pendingDeleteId selected_app = None \<and>
   confirmDelete example_toISOString selected_app = Inr selected_app \<and>
   pendingDeleteId pending_delete_app = Some ''4067200000'' \<and>
   logs (cancelDelete pending_delete_app)
     = [RouteLog example_route, RouteLog example_route2, SpotLog example_spot] \<and>
   drawnLayers (cancelDelete pending_delete_app) ''4067200000''
     = Some (Polyline [(28.6, 77.2), (28.61, 77.21)] \<lparr> color = ''#d1d5db'', weight = 4, opacity = 0.4 \<rparr>) \<and>
   activeAnimations (cancelDelete pending_delete_app) ''4067200000'' = Some 1 \<and>
   animationLayers (cancelDelete pending_delete_app) ''4067200000''
     = Some (Polyline [] \<lparr> color = ''#000000'', weight = 4, opacity = 1 \<rparr>) \<and>
   cards (cancelDelete pending_delete_app) = [''4067200000'', ''4070800000'', ''4074400000'']"
proof -
  have none: "pendingDeleteId selected_app = None"
    by (simp add: selected_app_eq loaded_app_eq initial_app_def)
  have pend: "pendingDeleteId pending_delete_app = Some ''4067200000''"
    by (simp add: pending_delete_app_eq)
  have populated:
    "logs pending_delete_app = [RouteLog example_route, RouteLog example_route2, SpotLog example_spot]"
    "drawnLayers pending_delete_app ''4067200000''
       = Some (Polyline [(28.6, 77.2), (28.61, 77.21)] \<lparr> color = ''#d1d5db'', weight = 4, opacity = 0.4 \<rparr>)"
    "activeAnimations pending_delete_app ''4067200000'' = Some 1"
    "animationLayers pending_delete_app ''4067200000''
       = Some (Polyline [] \<lparr> color = ''#000000'', weight = 4, opacity = 1 \<rparr>)"
    "cards pending_delete_app = [''4067200000'', ''4070800000'', ''4074400000'']"
    by (simp_all add: pending_delete_app_eq selected_app_eq loaded_app_eq)
  from cancel_path_of_delete_keeps_entries [of selected_app example_toISOString]
    cancel_path_of_delete_keeps_entries [of pending_delete_app] none pend populated
  show ?thesis by simp
qed

lemma confirmDelete_removes_pending_entry:
  "\<exists>s'. confirmDelete example_toISOString pending_delete_app = Inr s' \<and>
         logs s' = [RouteLog example_route2, SpotLog example_spot] \<and>
         drawnLayers s' ''4067200000'' = None \<and>
         activeAnimations s' ''4067200000'' = None \<and>
         animationLayers s' ''4067200000'' = None \<and>
         selectedRouteId s' = None \<and>
         cards s' = [''4070800000'', ''4074400000'']"
  by (simp add: confirmDelete_def truthy_def pending_delete_app_eq selected_app_eq loaded_app_eq deselectRoute_def
      stopRouteAnimation_def resetLayerStyle_def remove_card_def saveToLocalStorage_def
      entry_toJSON_def Route_toJSON_def Spot_toJSON_def example_fields Let_def initial_app_def)

end
